theory Spec2Isabelle
  imports Complex_Main "HOL-Library.Sublist"
begin

section \<open>JavaScript primitives used by the recommenders\<close>

text \<open>
  JavaScript numbers are modelled as \<open>real\<close> (ratings, scores), without the rounding of
  floating point, and as \<open>int\<close>/\<open>nat\<close> (years, runtimes, identifiers, counts); strings
  are byte lists, and the case conversion below is the ASCII part of
  \<^verbatim>\<open>String.prototype.toLowerCase\<close>: a code in 65..90 (\<open>A\<close>..\<open>Z\<close>) has bit 5 clear, so
  adding 32 sets that bit.
\<close>

fun toLowerCase_char :: "char \<Rightarrow> char" where
  "toLowerCase_char (Char b0 b1 b2 b3 b4 b5 b6 b7) =
     (if (65::nat) \<le> of_char (Char b0 b1 b2 b3 b4 b5 b6 b7)
         \<and> of_char (Char b0 b1 b2 b3 b4 b5 b6 b7) \<le> (90::nat)
      then Char b0 b1 b2 b3 b4 True b6 b7
      else Char b0 b1 b2 b3 b4 b5 b6 b7)"

definition toLowerCase :: "string \<Rightarrow> string" where
  "toLowerCase s = map toLowerCase_char s"

text \<open>\<^verbatim>\<open>s.includes(sub)\<close>: \<open>sub\<close> occurs in \<open>s\<close> as a contiguous run.\<close>

definition str_includes :: "string \<Rightarrow> string \<Rightarrow> bool" where
  "str_includes s sub = sublist sub s"

section \<open>Restaurant domain: data model\<close>

record UserPreferences =
  favoriteCuisines :: "string list"
  dietaryRestrictions :: "string list"
  minRating :: real

text \<open>\<^verbatim>\<open>RestaurantUserPreferences\<close> of \<^verbatim>\<open>restaurants/types.ts\<close>: the same three fields and
  the id of the user.\<close>

record RestaurantUserPreferences = UserPreferences +
  prefs_user_id :: nat

text \<open>The user of the TV, movie and restaurants modules has an id and a name; the user
  of \<^verbatim>\<open>src/recommender.ts\<close> also carries the preferences.\<close>

record CommonUser =
  user_id :: nat
  user_name :: string

record User = CommonUser +
  preferences :: UserPreferences

text \<open>\<open>RestaurantData\<close> is \<^verbatim>\<open>Omit<Restaurant, 'id'>\<close>, what the provider delivers; the
  store assigns \<open>r_id\<close>, which is optional in the source (\<^verbatim>\<open>id?: number\<close>).\<close>

record RestaurantData =
  googlePlaceId :: string
  r_name :: string
  address :: string
  cuisines :: "string list"
  dietaryOptions :: "string list"
  rating :: real

record Restaurant = RestaurantData +
  r_id :: "nat option"

section \<open>Restaurant domain: scoring engine\<close>

text \<open>
  \<^verbatim>\<open>calculateMatchScore\<close> of \<^verbatim>\<open>src/recommender.ts\<close>. Its three steps read the three fields
  that \<^verbatim>\<open>UserPreferences\<close> and \<^verbatim>\<open>RestaurantUserPreferences\<close> share, so they are typed for
  both. \<^verbatim>\<open>calculateRestaurantMatchScore\<close> of \<^verbatim>\<open>restaurants/recommender.ts\<close>, which repeats
  them with the jitter factor 2 in place of 5, follows.
\<close>

definition CUISINE_MATCH_SCORE :: real where
  "CUISINE_MATCH_SCORE = 30"

definition DIETARY_MATCH_SCORE :: real where
  "DIETARY_MATCH_SCORE = 50"

definition RATING_BONUS_PER_POINT :: real where
  "RATING_BONUS_PER_POINT = 5"

definition arrayIntersects :: "'a list \<Rightarrow> 'a list \<Rightarrow> bool" where
  "arrayIntersects arr1 arr2 = list_ex (\<lambda>item. item \<in> set arr2) arr1"

text \<open>Step 1 of \<^verbatim>\<open>calculateMatchScore\<close>, the cuisine match added to a score of 0.\<close>

definition cuisineMatch :: "Restaurant \<Rightarrow> 'a UserPreferences_scheme \<Rightarrow> real" where
  "cuisineMatch restaurant prefs =
     (let userCuisines = favoriteCuisines prefs
      in if ''Any'' \<in> set userCuisines \<or> length userCuisines = 0
         then CUISINE_MATCH_SCORE / 2
         else if arrayIntersects (cuisines restaurant) userCuisines
         then CUISINE_MATCH_SCORE
         else 0)"

text \<open>Step 2: every restriction of the user is a substring, ignoring case, of some
  dietary option of the restaurant.\<close>

definition meetsAllRestrictions :: "Restaurant \<Rightarrow> string list \<Rightarrow> bool" where
  "meetsAllRestrictions restaurant userRestrictions =
     list_all (\<lambda>restriction.
        list_ex (\<lambda>option. str_includes (toLowerCase option) (toLowerCase restriction))
          (dietaryOptions restaurant))
       userRestrictions"

text \<open>Step 3 and the tie-breaking jitter, applied to the score accumulated so far.
  \<open>rnd\<close> is the value \<^verbatim>\<open>Math.random()\<close> returns in this call, a number in \<open>[0, 1)\<close>;
  it is only read on the paths that reach the jitter line.\<close>

definition ratingMatch ::
  "Restaurant \<Rightarrow> 'a UserPreferences_scheme \<Rightarrow> real \<Rightarrow> real \<Rightarrow> real" where
  "ratingMatch restaurant prefs rnd score =
     (if rating restaurant \<ge> minRating prefs
      then score + (rating restaurant - minRating prefs) * RATING_BONUS_PER_POINT + 10 + rnd * 5
      else if score < (CUISINE_MATCH_SCORE + DIETARY_MATCH_SCORE) / 2
      then 0
      else score + rnd * 5)"

definition calculateMatchScore :: "Restaurant \<Rightarrow> 'a UserPreferences_scheme \<Rightarrow> real \<Rightarrow> real" where
  "calculateMatchScore restaurant prefs rnd =
     (let score = cuisineMatch restaurant prefs;
          userRestrictions = dietaryRestrictions prefs
      in if length userRestrictions > 0
         then (if meetsAllRestrictions restaurant userRestrictions
               then ratingMatch restaurant prefs rnd (score + DIETARY_MATCH_SCORE)
               else 0)
         else ratingMatch restaurant prefs rnd (score + DIETARY_MATCH_SCORE / 5))"

text \<open>Step 3 of \<^verbatim>\<open>calculateRestaurantMatchScore\<close>, with the jitter \<^verbatim>\<open>Math.random() * 2\<close>.\<close>

definition restaurantRatingMatch ::
  "Restaurant \<Rightarrow> RestaurantUserPreferences \<Rightarrow> real \<Rightarrow> real \<Rightarrow> real" where
  "restaurantRatingMatch restaurant prefs rnd score =
     (if rating restaurant \<ge> minRating prefs
      then score + (rating restaurant - minRating prefs) * RATING_BONUS_PER_POINT + 10 + rnd * 2
      else if score < (CUISINE_MATCH_SCORE + DIETARY_MATCH_SCORE) / 2
      then 0
      else score + rnd * 2)"

definition calculateRestaurantMatchScore ::
  "Restaurant \<Rightarrow> RestaurantUserPreferences \<Rightarrow> real \<Rightarrow> real" where
  "calculateRestaurantMatchScore restaurant prefs rnd =
     (let score = cuisineMatch restaurant prefs;
          userRestrictions = dietaryRestrictions prefs
      in if length userRestrictions > 0
         then (if meetsAllRestrictions restaurant userRestrictions
               then restaurantRatingMatch restaurant prefs rnd (score + DIETARY_MATCH_SCORE)
               else 0)
         else restaurantRatingMatch restaurant prefs rnd (score + DIETARY_MATCH_SCORE / 5))"

section \<open>Restaurant domain: orchestrator\<close>

text \<open>
  \<^verbatim>\<open>getRecommendations(user, allRestaurants, excludeIds)\<close>. The call of
  \<^verbatim>\<open>calculateMatchScore\<close> for the \<open>i\<close>-th restaurant that survives the exclusion filter
  sees the random draw \<open>rnd i\<close>. The sort is the stable sort of the runtime with the
  comparator \<^verbatim>\<open>b.score - a.score\<close>, that is, descending by score.
\<close>

definition notExcluded :: "nat set \<Rightarrow> Restaurant \<Rightarrow> bool" where
  "notExcluded excludeIds r = (case r_id r of None \<Rightarrow> False | Some i \<Rightarrow> i \<notin> excludeIds)"

definition scoredRestaurants ::
  "'a UserPreferences_scheme \<Rightarrow> Restaurant list \<Rightarrow> nat set \<Rightarrow> (nat \<Rightarrow> real) \<Rightarrow> (Restaurant \<times> real) list" where
  "scoredRestaurants prefs allRestaurants excludeIds rnd =
     sort_key (\<lambda>item. - snd item)
       (filter (\<lambda>item. snd item > 0)
          (map (\<lambda>(i, restaurant). (restaurant, calculateMatchScore restaurant prefs (rnd i)))
             (enumerate 0 (filter (notExcluded excludeIds) allRestaurants))))"

definition getRecommendations ::
  "User \<Rightarrow> Restaurant list \<Rightarrow> nat set \<Rightarrow> (nat \<Rightarrow> real) \<Rightarrow> Restaurant list" where
  "getRecommendations user allRestaurants excludeIds rnd =
     map fst (scoredRestaurants (preferences user) allRestaurants excludeIds rnd)"

text \<open>
  \<^verbatim>\<open>getRestaurantRecommendations(user, userPrefs, allRestaurants, excludeRestaurantIds)\<close>
  of \<^verbatim>\<open>restaurants/recommender.ts\<close>: the same pipeline over \<^verbatim>\<open>calculateRestaurantMatchScore\<close>.
\<close>

definition getRestaurantRecommendations ::
  "CommonUser \<Rightarrow> RestaurantUserPreferences \<Rightarrow> Restaurant list \<Rightarrow> nat set \<Rightarrow> (nat \<Rightarrow> real)
     \<Rightarrow> Restaurant list" where
  "getRestaurantRecommendations user userPrefs allRestaurants excludeRestaurantIds rnd =
     map fst
       (sort_key (\<lambda>item. - snd item)
          (filter (\<lambda>item. snd item > 0)
             (map (\<lambda>(i, restaurant).
                     (restaurant, calculateRestaurantMatchScore restaurant userPrefs (rnd i)))
                (enumerate 0 (filter (notExcluded excludeRestaurantIds) allRestaurants)))))"

section \<open>The worked restaurant scenario\<close>



definition restaurant_A :: Restaurant where
  "restaurant_A = \<lparr>googlePlaceId = ''place-A'', r_name = ''A'', address = ''a'',
     cuisines = [''Italian''], dietaryOptions = [''vegetarian'', ''vegan''], rating = 4.5,
     r_id = Some 1\<rparr>"

definition restaurant_B :: Restaurant where
  "restaurant_B = \<lparr>googlePlaceId = ''place-B'', r_name = ''B'', address = ''b'',
     cuisines = [''Mexican''], dietaryOptions = [''vegetarian''], rating = 4.8,
     r_id = Some 2\<rparr>"

definition restaurant_C :: Restaurant where
  "restaurant_C = \<lparr>googlePlaceId = ''place-C'', r_name = ''C'', address = ''c'',
     cuisines = [''Italian''], dietaryOptions = [], rating = 4.2, r_id = Some 3\<rparr>"

section \<open>Vocabulary for the properties of the restaurant scorer\<close>




definition open_prefs :: UserPreferences where
  "open_prefs = \<lparr>favoriteCuisines = [], dietaryRestrictions = [], minRating = 1\<rparr>"

definition restaurant_D :: Restaurant where
  "restaurant_D = \<lparr>googlePlaceId = ''place-D'', r_name = ''D'', address = ''d'',
     cuisines = [''Mexican''], dietaryOptions = [''vegetarian''], rating = 3.5,
     r_id = Some 4\<rparr>"

section \<open>TV domain: data model\<close>

text \<open>
  A missing or \<^verbatim>\<open>null\<close> attribute is \<open>None\<close>. Of the provider's show object only
  the fields that the store and the recommender read are kept.
\<close>

record Genre =
  genre_id :: nat
  genre_name :: string

record TvShow =
  tv_id :: nat
  tmdb_id :: nat
  tv_name :: string
  overview :: string
  first_air_date :: "string option"
  vote_average :: real
  vote_count :: nat
  poster_path :: "string option"
  backdrop_path :: "string option"
  genres :: "Genre list"
  number_of_seasons :: "nat option"
  episode_run_time :: "int list option"
  original_language :: "string option"
  imdb_id :: "string option"

record UserTvShowPreferences =
  pref_user_id :: nat
  preferred_genres :: "string list option"
  preferred_languages :: "string list option"
  first_air_year_min :: "int option"
  first_air_year_max :: "int option"
  avg_episode_duration_min :: "int option"
  avg_episode_duration_max :: "int option"
  min_imdb_rating :: "real option"
  preferred_streaming_providers :: "string list option"

section \<open>Number parsing and truthiness\<close>

text \<open>
  \<^verbatim>\<open>parseInt(s)\<close> without a radix: leading white space (here the ASCII white space
  characters) and one sign are skipped, a prefix \<^verbatim>\<open>0x\<close> selects base 16, then the
  longest run of digits of the base is read.
  \<open>None\<close> stands for \<^verbatim>\<open>NaN\<close>, the result when no digit is read; every comparison with
  \<^verbatim>\<open>NaN\<close> is false.
\<close>

definition isWhiteSpace :: "char \<Rightarrow> bool" where
  "isWhiteSpace c = (c \<in> set [CHR '' '', CHR 0x09, CHR 0x0A, CHR 0x0B, CHR 0x0C, CHR 0x0D])"

definition digitValue :: "char \<Rightarrow> nat option" where
  "digitValue c =
     (let n = (of_char c :: nat)
      in if 48 \<le> n \<and> n \<le> 57 then Some (n - 48)
         else if 97 \<le> n \<and> n \<le> 122 then Some (n - 87)
         else if 65 \<le> n \<and> n \<le> 90 then Some (n - 55)
         else None)"

fun parseDigits :: "nat \<Rightarrow> string \<Rightarrow> nat option \<Rightarrow> nat option" where
  "parseDigits radix [] acc = acc"
| "parseDigits radix (c # cs) acc =
     (case digitValue c of
        None \<Rightarrow> acc
      | Some d \<Rightarrow>
          if d < radix
          then parseDigits radix cs (Some (radix * (case acc of None \<Rightarrow> 0 | Some a \<Rightarrow> a) + d))
          else acc)"

definition parseInt :: "string \<Rightarrow> int option" where
  "parseInt s =
     (let s1 = dropWhile isWhiteSpace s;
          neg = (take 1 s1 = ''-'');
          s2 = (if take 1 s1 = ''-'' \<or> take 1 s1 = ''+'' then drop 1 s1 else s1);
          hex = (take 2 s2 = ''0x'' \<or> take 2 s2 = ''0X'');
          digits = (if hex then parseDigits 16 (drop 2 s2) None else parseDigits 10 s2 None)
      in case digits of
           None \<Rightarrow> None
         | Some n \<Rightarrow> Some (if neg then - int n else int n))"

text \<open>\<^verbatim>\<open>x < y\<close> and \<^verbatim>\<open>x > y\<close> where \<open>x\<close> may be \<^verbatim>\<open>NaN\<close>.\<close>

definition js_lt :: "int option \<Rightarrow> int \<Rightarrow> bool" where
  "js_lt x y = (case x of None \<Rightarrow> False | Some v \<Rightarrow> v < y)"

definition js_gt :: "int option \<Rightarrow> int \<Rightarrow> bool" where
  "js_gt x y = (case x of None \<Rightarrow> False | Some v \<Rightarrow> v > y)"

text \<open>Truthiness of an optional number (\<^verbatim>\<open>undefined\<close>, \<^verbatim>\<open>null\<close> and \<open>0\<close> are falsy), of an
  optional string (the empty string is falsy), and the test
  \<^verbatim>\<open>xs && xs.length > 0\<close> on an optional array.\<close>

definition truthyNumber :: "int option \<Rightarrow> bool" where
  "truthyNumber x = (case x of None \<Rightarrow> False | Some v \<Rightarrow> v \<noteq> 0)"

definition truthyString :: "string option \<Rightarrow> bool" where
  "truthyString x = (case x of None \<Rightarrow> False | Some v \<Rightarrow> v \<noteq> [])"

definition nonEmptyList :: "'a list option \<Rightarrow> bool" where
  "nonEmptyList xs = (case xs of None \<Rightarrow> False | Some l \<Rightarrow> length l > 0)"

section \<open>TV domain: scoring engine\<close>

text \<open>
  The body of the \<^verbatim>\<open>map\<close> callback of \<^verbatim>\<open>getContentBasedTvShowRecommendations\<close>
  threads two local variables, \<^verbatim>\<open>score\<close> and \<^verbatim>\<open>meetsAllHardFilters\<close>, through six
  numbered steps. Each step is a function on that pair.
\<close>

type_synonym scoring = "real \<times> bool"

definition genreStep :: "UserTvShowPreferences \<Rightarrow> TvShow \<Rightarrow> scoring \<Rightarrow> scoring" where
  "genreStep prefs tvshow st =
     (case st of (score, meetsAllHardFilters) \<Rightarrow>
        if nonEmptyList (preferred_genres prefs)
        then (let showGenresLower = map (\<lambda>g. toLowerCase (genre_name g)) (genres tvshow);
                  preferredGenresLower = map toLowerCase (the (preferred_genres prefs));
                  genreMatchCount = length (filter (\<lambda>pg. pg \<in> set showGenresLower) preferredGenresLower)
              in if genreMatchCount = 0 then (score, False)
                 else (score + real genreMatchCount * 5, meetsAllHardFilters))
        else (score + 2, meetsAllHardFilters))"

definition languageStep :: "UserTvShowPreferences \<Rightarrow> TvShow \<Rightarrow> scoring \<Rightarrow> scoring" where
  "languageStep prefs tvshow st =
     (case st of (score, meetsAllHardFilters) \<Rightarrow>
        if nonEmptyList (preferred_languages prefs)
        then (if \<not> truthyString (original_language tvshow)
                 \<or> toLowerCase (the (original_language tvshow)) \<notin> set (the (preferred_languages prefs))
              then (score, False)
              else (score + 10, meetsAllHardFilters))
        else (score, meetsAllHardFilters))"

definition yearStep :: "UserTvShowPreferences \<Rightarrow> TvShow \<Rightarrow> scoring \<Rightarrow> scoring" where
  "yearStep prefs tvshow st =
     (case st of (score, meetsAllHardFilters) \<Rightarrow>
        if truthyString (first_air_date tvshow)
        then (let showYear = parseInt (take 4 (the (first_air_date tvshow)));
                  m1 = (if truthyNumber (first_air_year_min prefs)
                           \<and> js_lt showYear (the (first_air_year_min prefs))
                        then False else meetsAllHardFilters);
                  m2 = (if truthyNumber (first_air_year_max prefs)
                           \<and> js_gt showYear (the (first_air_year_max prefs))
                        then False else m1)
              in (score, m2))
        else if truthyNumber (first_air_year_min prefs) \<or> truthyNumber (first_air_year_max prefs)
        then (score, False)
        else (score, meetsAllHardFilters))"

definition avgEpisodeRunTime :: "TvShow \<Rightarrow> int option" where
  "avgEpisodeRunTime tvshow =
     (case episode_run_time tvshow of
        None \<Rightarrow> None
      | Some [] \<Rightarrow> None
      | Some (t # ts) \<Rightarrow> Some t)"

definition durationStep :: "UserTvShowPreferences \<Rightarrow> TvShow \<Rightarrow> scoring \<Rightarrow> scoring" where
  "durationStep prefs tvshow st =
     (case st of (score, meetsAllHardFilters) \<Rightarrow>
        case avgEpisodeRunTime tvshow of
          Some t \<Rightarrow>
            (let m1 = (if avg_episode_duration_min prefs \<noteq> None
                          \<and> t < the (avg_episode_duration_min prefs)
                       then False else meetsAllHardFilters);
                 m2 = (if avg_episode_duration_max prefs \<noteq> None
                          \<and> t > the (avg_episode_duration_max prefs)
                       then False else m1)
             in (score, m2))
        | None \<Rightarrow>
            if avg_episode_duration_min prefs \<noteq> None \<or> avg_episode_duration_max prefs \<noteq> None
            then (score, False)
            else (score, meetsAllHardFilters))"

definition voteStep :: "UserTvShowPreferences \<Rightarrow> TvShow \<Rightarrow> scoring \<Rightarrow> scoring" where
  "voteStep prefs tvshow st =
     (case st of (score, meetsAllHardFilters) \<Rightarrow>
        if min_imdb_rating prefs \<noteq> None \<and> vote_average tvshow < the (min_imdb_rating prefs)
        then (score, False)
        else (score, meetsAllHardFilters))"

definition providerStep :: "UserTvShowPreferences \<Rightarrow> TvShow \<Rightarrow> scoring \<Rightarrow> scoring" where
  "providerStep prefs tvshow st =
     (case st of (score, meetsAllHardFilters) \<Rightarrow>
        if nonEmptyList (preferred_streaming_providers prefs)
        then (score + 3, meetsAllHardFilters)
        else (score, meetsAllHardFilters))"

definition scoringSteps :: "UserTvShowPreferences \<Rightarrow> TvShow \<Rightarrow> scoring" where
  "scoringSteps prefs tvshow =
     providerStep prefs tvshow (voteStep prefs tvshow (durationStep prefs tvshow
       (yearStep prefs tvshow (languageStep prefs tvshow (genreStep prefs tvshow (0, True))))))"

definition scoreTvShow :: "UserTvShowPreferences \<Rightarrow> TvShow \<Rightarrow> real" where
  "scoreTvShow prefs tvshow =
     (case scoringSteps prefs tvshow of (score, meetsAllHardFilters) \<Rightarrow>
        if \<not> meetsAllHardFilters then 0 else score + 5 + vote_average tvshow / 2)"

text \<open>\<open>count\<close> is a number of items, a natural number; \<^verbatim>\<open>slice(0, count)\<close> is \<open>take\<close>.\<close>

definition getContentBasedTvShowRecommendations ::
  "UserTvShowPreferences \<Rightarrow> TvShow list \<Rightarrow> nat \<Rightarrow> TvShow list" where
  "getContentBasedTvShowRecommendations prefs candidateTvShows count =
     map fst (take count
       (sort_key (\<lambda>item. - snd item)
          (filter (\<lambda>item. snd item > 0)
             (map (\<lambda>tvshow. (tvshow, scoreTvShow prefs tvshow)) candidateTvShows))))"

section \<open>Vocabulary for the properties of the TV scorer\<close>

text \<open>
  The value of the local variable \<^verbatim>\<open>meetsAllHardFilters\<close> when the callback returns.
\<close>

definition meetsAllHardFilters :: "UserTvShowPreferences \<Rightarrow> TvShow \<Rightarrow> bool" where
  "meetsAllHardFilters prefs tvshow = snd (scoringSteps prefs tvshow)"



definition genreMatchCount :: "UserTvShowPreferences \<Rightarrow> TvShow \<Rightarrow> nat" where
  "genreMatchCount prefs tvshow =
     length (filter (\<lambda>pg. pg \<in> set (map (\<lambda>g. toLowerCase (genre_name g)) (genres tvshow)))
       (map toLowerCase (the (preferred_genres prefs))))"






section \<open>Sample TV data\<close>

definition no_tv_prefs :: UserTvShowPreferences where
  "no_tv_prefs =
     \<lparr>pref_user_id = 1, preferred_genres = None, preferred_languages = None,
      first_air_year_min = None, first_air_year_max = None,
      avg_episode_duration_min = None, avg_episode_duration_max = None,
      min_imdb_rating = None, preferred_streaming_providers = None\<rparr>"


definition comedy_prefs :: UserTvShowPreferences where
  "comedy_prefs = no_tv_prefs\<lparr>preferred_genres := Some [''Comedy'']\<rparr>"



section \<open>TV domain: catalog store\<close>

text \<open>
  The provider's show object (\<^verbatim>\<open>TMDBTvShow\<close>); \<open>s_external_imdb_id\<close> is
  \<^verbatim>\<open>external_ids?.imdb_id\<close>.
\<close>

record TMDBTvShow =
  s_id :: nat
  s_name :: string
  s_imdb_id :: "string option"
  s_overview :: string
  s_first_air_date :: "string option"
  s_vote_average :: real
  s_vote_count :: nat
  s_poster_path :: "string option"
  s_backdrop_path :: "string option"
  s_genre_ids :: "nat list option"
  s_genres :: "Genre list option"
  s_number_of_seasons :: "nat option"
  s_episode_run_time :: "int list option"
  s_original_language :: "string option"
  s_external_imdb_id :: "string option"

record UserTvShowRating =
  rating_user_id :: nat
  tv_show_id :: nat
  user_rating :: int

record UserTvShowRatingJoined = UserTvShowRating +
  tv_show_tmdb_id :: nat

text \<open>
  The two tables of the store that the TV recommender touches. List-valued columns are
  kept as lists: a value written with \<^verbatim>\<open>JSON.stringify\<close> is read back with
  \<^verbatim>\<open>JSON.parse\<close>. The store is assumed to execute every statement, so the \<^verbatim>\<open>catch\<close>
  branches of the source are not entered.

  The query of \<^verbatim>\<open>getUserTvShowRatings\<close> has no \<^verbatim>\<open>ORDER BY\<close>, so the order of its answer
  is the choice of the store (SQLite walks the primary key \<open>(user_id, tv_show_id)\<close>).
  \<open>answerOrder\<close> is that choice: the function from the joined rows, taken in table order,
  to the answer. Nothing is assumed of it.
\<close>

record TvDatabase =
  tv_shows :: "TvShow list"
  user_tv_show_ratings :: "UserTvShowRating list"
  answerOrder :: "UserTvShowRatingJoined list \<Rightarrow> UserTvShowRatingJoined list"

definition getTvShowByOurId :: "TvDatabase \<Rightarrow> nat \<Rightarrow> TvShow option" where
  "getTvShowByOurId db i = find (\<lambda>row. tv_id row = i) (tv_shows db)"

definition getTvShowByTmdbId :: "TvDatabase \<Rightarrow> nat \<Rightarrow> TvShow option" where
  "getTvShowByTmdbId db tmdbId = find (\<lambda>row. tmdb_id row = tmdbId) (tv_shows db)"

definition getUserTvShowRatings :: "TvDatabase \<Rightarrow> nat \<Rightarrow> UserTvShowRatingJoined list" where
  "getUserTvShowRatings db userId =
     answerOrder db
       (concat (map (\<lambda>utr.
          map (\<lambda>ts. UserTvShowRating.extend utr (UserTvShowRatingJoined.fields (tmdb_id ts)))
            (filter (\<lambda>ts. tv_id ts = tv_show_id utr) (tv_shows db)))
         (filter (\<lambda>utr. rating_user_id utr = userId) (user_tv_show_ratings db))))"

definition mapTvGenreIdsToObjects :: "Genre list \<Rightarrow> nat list option \<Rightarrow> Genre list" where
  "mapTvGenreIdsToObjects fullGenreList genre_ids =
     (if \<not> nonEmptyList genre_ids then []
      else List.map_filter (\<lambda>i. find (\<lambda>g. genre_id g = i) fullGenreList) (the genre_ids))"

definition ensureFullTvGenreObjects :: "Genre list \<Rightarrow> TMDBTvShow \<Rightarrow> Genre list" where
  "ensureFullTvGenreObjects fullGenreList tvShowData =
     (if nonEmptyList (s_genres tvShowData) then the (s_genres tvShowData)
      else if nonEmptyList (s_genre_ids tvShowData)
      then mapTvGenreIdsToObjects fullGenreList (s_genre_ids tvShowData)
      else [])"

definition imdbIdToSave :: "TMDBTvShow \<Rightarrow> string option" where
  "imdbIdToSave tvShowData =
     (if truthyString (s_imdb_id tvShowData) then s_imdb_id tvShowData
      else if truthyString (s_external_imdb_id tvShowData) then s_external_imdb_id tvShowData
      else None)"

text \<open>The \<^verbatim>\<open>UPDATE ... SET\<close> of \<^verbatim>\<open>saveTvShow\<close> applied to one row: every column but
  the two ids is overwritten.\<close>

definition updateRow :: "Genre list \<Rightarrow> TMDBTvShow \<Rightarrow> TvShow \<Rightarrow> TvShow" where
  "updateRow fullGenreList tvShowData row =
     row\<lparr>tv_name := s_name tvShowData,
         overview := s_overview tvShowData,
         first_air_date := s_first_air_date tvShowData,
         vote_average := s_vote_average tvShowData,
         vote_count := s_vote_count tvShowData,
         poster_path := s_poster_path tvShowData,
         backdrop_path := s_backdrop_path tvShowData,
         genres := ensureFullTvGenreObjects fullGenreList tvShowData,
         number_of_seasons := s_number_of_seasons tvShowData,
         episode_run_time := s_episode_run_time tvShowData,
         original_language := s_original_language tvShowData,
         imdb_id := imdbIdToSave tvShowData\<rparr>"

definition insertRow :: "Genre list \<Rightarrow> TMDBTvShow \<Rightarrow> nat \<Rightarrow> TvShow" where
  "insertRow fullGenreList tvShowData newId =
     \<lparr>tv_id = newId,
      tmdb_id = s_id tvShowData,
      tv_name = s_name tvShowData,
      overview = s_overview tvShowData,
      first_air_date = s_first_air_date tvShowData,
      vote_average = s_vote_average tvShowData,
      vote_count = s_vote_count tvShowData,
      poster_path = s_poster_path tvShowData,
      backdrop_path = s_backdrop_path tvShowData,
      genres = ensureFullTvGenreObjects fullGenreList tvShowData,
      number_of_seasons = s_number_of_seasons tvShowData,
      episode_run_time = s_episode_run_time tvShowData,
      original_language = s_original_language tvShowData,
      imdb_id = imdbIdToSave tvShowData\<rparr>"

text \<open>The id an \<^verbatim>\<open>AUTOINCREMENT\<close> key gives the next row of a table from which nothing
  is ever deleted: one more than the largest id in use.\<close>

definition lastID :: "nat list \<Rightarrow> nat" where
  "lastID ids = Suc (fold max ids 0)"

definition saveTvShow :: "Genre list \<Rightarrow> TMDBTvShow \<Rightarrow> TvDatabase \<Rightarrow> TvShow option \<times> TvDatabase" where
  "saveTvShow fullGenreList tvShowData db =
     (case find (\<lambda>row. tmdb_id row = s_id tvShowData) (tv_shows db) of
        Some existing \<Rightarrow>
          (let db' = db\<lparr>tv_shows :=
                 map (\<lambda>row. if tmdb_id row = s_id tvShowData
                            then updateRow fullGenreList tvShowData row else row) (tv_shows db)\<rparr>
           in (getTvShowByTmdbId db' (s_id tvShowData), db'))
      | None \<Rightarrow>
          (let newId = lastID (map tv_id (tv_shows db));
               db' = db\<lparr>tv_shows := tv_shows db @ [insertRow fullGenreList tvShowData newId]\<rparr>
           in (if newId \<noteq> 0 then getTvShowByOurId db' newId else None, db')))"

section \<open>TV domain: orchestrator\<close>

text \<open>
  The provider as the orchestrator sees it during one call: the popular list (\<open>None\<close>
  when the response or its \<^verbatim>\<open>results\<close> is missing), the detail lookup, the
  "recommended for this show" lookup and the cached genre list. A lookup answers the
  same request the same way throughout the call.
\<close>

record TmdbService =
  getPopularTvShows :: "TMDBTvShow list option"
  getTMDBTvShowDetails :: "nat \<Rightarrow> TMDBTvShow option"
  getTMDBCollaborativeRecs :: "nat \<Rightarrow> TMDBTvShow list option"
  tvGenreList :: "Genre list"

definition MIN_RATINGS_FOR_COLLABORATIVE_TV :: nat where
  "MIN_RATINGS_FOR_COLLABORATIVE_TV = 2"

text \<open>The mutable state of one call: the list being built, the exclusion set of the
  caller (mutated in place in the source) and the store.\<close>

record RecState =
  recommendations :: "TvShow list"
  excludeTvShowTmdbIds :: "nat set"
  database :: TvDatabase

text \<open>The pattern repeated at the three places that append:
  \<^verbatim>\<open>if (!recommendations.some(r => r.tmdb_id === x.tmdb_id)) { push(x); exclude.add(x.tmdb_id) }\<close>.\<close>

definition pushUnlessPresent :: "TvShow \<Rightarrow> RecState \<Rightarrow> RecState" where
  "pushUnlessPresent tvshow st =
     (if \<not> list_ex (\<lambda>r. tmdb_id r = tmdb_id tvshow) (recommendations st)
      then st\<lparr>recommendations := recommendations st @ [tvshow],
              excludeTvShowTmdbIds := insert (tmdb_id tvshow) (excludeTvShowTmdbIds st)\<rparr>
      else st)"

text \<open>Phase 1, first loop: the candidates among the first 30 popular shows.\<close>

fun collectCandidates ::
  "TmdbService \<Rightarrow> nat set \<Rightarrow> TMDBTvShow list \<Rightarrow> TvShow list \<Rightarrow> TvDatabase
     \<Rightarrow> TvShow list \<times> TvDatabase" where
  "collectCandidates svc exclude [] candidateTvShows db = (candidateTvShows, db)"
| "collectCandidates svc exclude (tmdbPopShow # rest) candidateTvShows db =
     (if s_id tmdbPopShow \<in> exclude then collectCandidates svc exclude rest candidateTvShows db
      else case getTMDBTvShowDetails svc (s_id tmdbPopShow) of
             None \<Rightarrow> collectCandidates svc exclude rest candidateTvShows db
           | Some detailedTmdbShow \<Rightarrow>
               (case saveTvShow (tvGenreList svc) detailedTmdbShow db of
                  (None, db') \<Rightarrow> collectCandidates svc exclude rest candidateTvShows db'
                | (Some showInDb, db') \<Rightarrow>
                    collectCandidates svc exclude rest (candidateTvShows @ [showInDb]) db'))"

text \<open>Phase 1, second loop, with its \<^verbatim>\<open>break\<close>.\<close>

fun addContentRecs :: "nat \<Rightarrow> TvShow list \<Rightarrow> RecState \<Rightarrow> RecState" where
  "addContentRecs count [] st = st"
| "addContentRecs count (rec # rest) st =
     (if length (recommendations st) \<ge> count then st
      else addContentRecs count rest (pushUnlessPresent rec st))"

text \<open>Phase 2, inner loop over the shows the provider recommends for one rated show.\<close>

fun addCollabRecs :: "TmdbService \<Rightarrow> nat \<Rightarrow> TMDBTvShow list \<Rightarrow> RecState \<Rightarrow> RecState" where
  "addCollabRecs svc count [] st = st"
| "addCollabRecs svc count (tmdbCollabShow # rest) st =
     (if length (recommendations st) \<ge> count \<or> s_id tmdbCollabShow \<in> excludeTvShowTmdbIds st
      then addCollabRecs svc count rest st
      else case getTMDBTvShowDetails svc (s_id tmdbCollabShow) of
             None \<Rightarrow> addCollabRecs svc count rest st
           | Some detailedCollabShow \<Rightarrow>
               (case saveTvShow (tvGenreList svc) detailedCollabShow (database st) of
                  (None, db') \<Rightarrow> addCollabRecs svc count rest (st\<lparr>database := db'\<rparr>)
                | (Some showInDb, db') \<Rightarrow>
                    addCollabRecs svc count rest (pushUnlessPresent showInDb (st\<lparr>database := db'\<rparr>))))"

text \<open>Phase 2, outer loop over the two best rated shows, with its \<^verbatim>\<open>break\<close>.\<close>

fun collabPhase ::
  "TmdbService \<Rightarrow> nat \<Rightarrow> UserTvShowRatingJoined list \<Rightarrow> RecState \<Rightarrow> RecState" where
  "collabPhase svc count [] st = st"
| "collabPhase svc count (ratedShow # rest) st =
     (if length (recommendations st) \<ge> count then st
      else case getTMDBCollaborativeRecs svc (tv_show_tmdb_id ratedShow) of
             None \<Rightarrow> collabPhase svc count rest st
           | Some results \<Rightarrow> collabPhase svc count rest (addCollabRecs svc count results st))"

text \<open>Phase 3: the whole popular list, in order.\<close>

fun addFallbackRecs :: "TmdbService \<Rightarrow> nat \<Rightarrow> TMDBTvShow list \<Rightarrow> RecState \<Rightarrow> RecState" where
  "addFallbackRecs svc count [] st = st"
| "addFallbackRecs svc count (tmdbPopShow # rest) st =
     (if length (recommendations st) \<ge> count \<or> s_id tmdbPopShow \<in> excludeTvShowTmdbIds st
      then addFallbackRecs svc count rest st
      else case getTvShowByTmdbId (database st) (s_id tmdbPopShow) of
             Some showInDb \<Rightarrow> addFallbackRecs svc count rest (pushUnlessPresent showInDb st)
           | None \<Rightarrow>
               (case getTMDBTvShowDetails svc (s_id tmdbPopShow) of
                  None \<Rightarrow> addFallbackRecs svc count rest st
                | Some detailedFallbackShow \<Rightarrow>
                    (case saveTvShow (tvGenreList svc) detailedFallbackShow (database st) of
                       (None, db') \<Rightarrow> addFallbackRecs svc count rest (st\<lparr>database := db'\<rparr>)
                     | (Some showInDb, db') \<Rightarrow>
                         addFallbackRecs svc count rest
                           (pushUnlessPresent showInDb (st\<lparr>database := db'\<rparr>)))))"

definition phase1 :: "TmdbService \<Rightarrow> UserTvShowPreferences \<Rightarrow> nat \<Rightarrow> RecState \<Rightarrow> RecState" where
  "phase1 svc userPrefs count st =
     (case getPopularTvShows svc of
        None \<Rightarrow> st
      | Some results \<Rightarrow>
          (case collectCandidates svc (excludeTvShowTmdbIds st) (take 30 results) [] (database st) of
             (candidateTvShows, db') \<Rightarrow>
               if length candidateTvShows > 0
               then addContentRecs count
                      (getContentBasedTvShowRecommendations userPrefs candidateTvShows count)
                      (st\<lparr>database := db'\<rparr>)
               else st\<lparr>database := db'\<rparr>))"

definition phase2 ::
  "TmdbService \<Rightarrow> UserTvShowRatingJoined list \<Rightarrow> nat \<Rightarrow> RecState \<Rightarrow> RecState" where
  "phase2 svc userRatings count st =
     (if length (recommendations st) < count
         \<and> length userRatings \<ge> MIN_RATINGS_FOR_COLLABORATIVE_TV
      then collabPhase svc count (take 2 (sort_key (\<lambda>r. - user_rating r) userRatings)) st
      else st)"

definition phase3 :: "TmdbService \<Rightarrow> nat \<Rightarrow> RecState \<Rightarrow> RecState" where
  "phase3 svc count st =
     (if length (recommendations st) < count
      then (case getPopularTvShows svc of
              None \<Rightarrow> st
            | Some results \<Rightarrow> addFallbackRecs svc count results st)
      else st)"

text \<open>
  \<^verbatim>\<open>getTvShowRecommendationsForUser(user, userPrefs, excludeTvShowTmdbIds, count)\<close>. The
  result state holds the returned list, the exclusion set as the caller finds it
  afterwards, and the store.
\<close>

definition getTvShowRecommendationsForUser ::
  "TmdbService \<Rightarrow> CommonUser \<Rightarrow> UserTvShowPreferences \<Rightarrow> nat set \<Rightarrow> nat \<Rightarrow> TvDatabase \<Rightarrow> RecState" where
  "getTvShowRecommendationsForUser svc user userPrefs exclude count db =
     (let userRatings = getUserTvShowRatings db (user_id user);
          st0 = \<lparr>recommendations = [], excludeTvShowTmdbIds = exclude, database = db\<rparr>;
          st3 = phase3 svc count (phase2 svc userRatings count (phase1 svc userPrefs count st0))
      in st3\<lparr>recommendations := take count (recommendations st3)\<rparr>)"

section \<open>Restaurant domain: catalog store\<close>

text \<open>
  A row of the \<^verbatim>\<open>restaurants\<close> table as \<^verbatim>\<open>db.get\<close> returns it. The columns \<^verbatim>\<open>cuisines\<close> and
  \<^verbatim>\<open>dietaryOptions\<close> hold JSON text and may be \<^verbatim>\<open>NULL\<close>. A JSON text is represented by the
  list of strings it encodes: \<open>JSON_stringify\<close> is its constructor and \<open>JSON_parse\<close> reads
  the list back, as \<^verbatim>\<open>JSON.parse(JSON.stringify(xs))\<close> does for an array of strings.
\<close>

datatype json_text = JSON_stringify "string list"

fun JSON_parse :: "json_text \<Rightarrow> string list" where
  "JSON_parse (JSON_stringify xs) = xs"

record RestaurantRow =
  row_id :: nat
  row_googlePlaceId :: string
  row_name :: string
  row_address :: string
  row_cuisines :: "json_text option"
  row_dietaryOptions :: "json_text option"
  row_rating :: real

text \<open>\<^verbatim>\<open>JSON.parse(row.cuisines || '[]')\<close>: a \<^verbatim>\<open>NULL\<close> column reads as the empty list; the JSON
  text of an array is not the empty string, so \<^verbatim>\<open>||\<close> keeps it.\<close>

definition parseColumn :: "json_text option \<Rightarrow> string list" where
  "parseColumn column = (case column of None \<Rightarrow> [] | Some t \<Rightarrow> JSON_parse t)"

text \<open>The object \<^verbatim>\<open>{...row, cuisines: JSON.parse(...), dietaryOptions: JSON.parse(...)}\<close>
  that \<^verbatim>\<open>getRestaurantById\<close> and \<^verbatim>\<open>getAllRestaurantsFromDb\<close> build from a row.\<close>

definition parseRow :: "RestaurantRow \<Rightarrow> Restaurant" where
  "parseRow row =
     \<lparr>googlePlaceId = row_googlePlaceId row,
      r_name = row_name row,
      address = row_address row,
      cuisines = parseColumn (row_cuisines row),
      dietaryOptions = parseColumn (row_dietaryOptions row),
      rating = row_rating row,
      r_id = Some (row_id row)\<rparr>"

definition getRestaurantById :: "RestaurantRow list \<Rightarrow> nat \<Rightarrow> Restaurant option" where
  "getRestaurantById rows i = map_option parseRow (find (\<lambda>row. row_id row = i) rows)"

definition getAllRestaurantsFromDb :: "RestaurantRow list \<Rightarrow> Restaurant list" where
  "getAllRestaurantsFromDb rows = map parseRow rows"

text \<open>The \<^verbatim>\<open>INSERT\<close> of \<^verbatim>\<open>saveRestaurantToDb\<close>, column by column.\<close>

definition insertRestaurantRow :: "RestaurantData \<Rightarrow> nat \<Rightarrow> RestaurantRow" where
  "insertRestaurantRow restaurantData newId =
     \<lparr>row_id = newId,
      row_googlePlaceId = googlePlaceId restaurantData,
      row_name = r_name restaurantData,
      row_address = address restaurantData,
      row_cuisines = Some (JSON_stringify (cuisines restaurantData)),
      row_dietaryOptions = Some (JSON_stringify (dietaryOptions restaurantData)),
      row_rating = rating restaurantData\<rparr>"

text \<open>
  What \<^verbatim>\<open>saveRestaurantToDb\<close> hands to its caller. When the place id is already stored
  it is the row itself, as the \<^verbatim>\<open>SELECT\<close> returned it, the two list columns still JSON
  text (\<^verbatim>\<open>if (existing) return existing\<close>); after an insert it is the object that
  \<^verbatim>\<open>getRestaurantById\<close> builds. \<open>savedId\<close> is \<^verbatim>\<open>saved.id\<close>, which the caller reads.
\<close>

datatype SavedRestaurant = StoredRow RestaurantRow | ParsedRecord Restaurant

fun savedId :: "SavedRestaurant \<Rightarrow> nat option" where
  "savedId (StoredRow row) = Some (row_id row)"
| "savedId (ParsedRecord restaurant) = r_id restaurant"

definition saveRestaurantToDb ::
  "RestaurantData \<Rightarrow> RestaurantRow list \<Rightarrow> SavedRestaurant option \<times> RestaurantRow list" where
  "saveRestaurantToDb restaurantData rows =
     (case find (\<lambda>row. row_googlePlaceId row = googlePlaceId restaurantData) rows of
        Some existing \<Rightarrow> (Some (StoredRow existing), rows)
      | None \<Rightarrow>
          (let newId = lastID (map row_id rows);
               rows' = rows @ [insertRestaurantRow restaurantData newId]
           in (if newId \<noteq> 0 then map_option ParsedRecord (getRestaurantById rows' newId) else None,
               rows')))"


section \<open>Restaurant domain: the provider client\<close>

fun toUpperCase_char :: "char \<Rightarrow> char" where
  "toUpperCase_char (Char b0 b1 b2 b3 b4 b5 b6 b7) =
     (if (97::nat) \<le> of_char (Char b0 b1 b2 b3 b4 b5 b6 b7)
         \<and> of_char (Char b0 b1 b2 b3 b4 b5 b6 b7) \<le> (122::nat)
      then Char b0 b1 b2 b3 b4 False b6 b7
      else Char b0 b1 b2 b3 b4 b5 b6 b7)"

text \<open>\<^verbatim>\<open>s.replace(sub, rep)\<close> with a string pattern replaces the first occurrence.\<close>

fun replaceFirst :: "string \<Rightarrow> string \<Rightarrow> string \<Rightarrow> string" where
  "replaceFirst sub rep [] = (if sub = [] then rep else [])"
| "replaceFirst sub rep (c # cs) =
     (if prefix sub (c # cs) then rep @ drop (length sub) (c # cs)
      else c # replaceFirst sub rep cs)"

fun splitOn :: "char \<Rightarrow> string \<Rightarrow> string list" where
  "splitOn sep [] = [[]]"
| "splitOn sep (c # cs) =
     (if c = sep then [] # splitOn sep cs
      else case splitOn sep cs of
             [] \<Rightarrow> [[c]]
           | w # ws \<Rightarrow> (c # w) # ws)"

definition joinWith :: "string \<Rightarrow> string list \<Rightarrow> string" where
  "joinWith sep ws = (case ws of [] \<Rightarrow> [] | w # rest \<Rightarrow> w @ concat (map (\<lambda>x. sep @ x) rest))"

definition capitalize :: "string \<Rightarrow> string" where
  "capitalize w = (case w of [] \<Rightarrow> [] | c # cs \<Rightarrow> toUpperCase_char c # cs)"

text \<open>\<^verbatim>\<open>[...new Set(xs)]\<close>: the first occurrence of each element, in order.\<close>

definition uniqueInOrder :: "'a list \<Rightarrow> 'a list" where
  "uniqueInOrder xs = rev (remdups (rev xs))"

definition pushUnique :: "'a \<Rightarrow> 'a list \<Rightarrow> 'a list" where
  "pushUnique x xs = (if x \<in> set xs then xs else xs @ [x])"

definition typeMap :: "(string \<times> string) list" where
  "typeMap = [(''cafe'', ''Cafe''), (''bakery'', ''Bakery''), (''bar'', ''Bar'')]"

definition nameKeywords :: "(string \<times> string) list" where
  "nameKeywords =
     [(''pizza'', ''Pizza''), (''sushi'', ''Sushi''), (''burger'', ''Burgers''),
      (''taco'', ''Mexican''), (''pho'', ''Vietnamese''), (''curry'', ''Indian''),
      (''pasta'', ''Italian''), (''steakhouse'', ''Steakhouse'')]"

definition cuisineOfType :: "string \<Rightarrow> string list \<Rightarrow> string list" where
  "cuisineOfType type cuisineList =
     (case map_of typeMap type of
        Some mapped \<Rightarrow> pushUnique mapped cuisineList
      | None \<Rightarrow>
          if str_includes type ''_restaurant''
          then pushUnique
                 (joinWith '' '' (map capitalize (splitOn (CHR ''_'') (replaceFirst ''_restaurant'' [] type))))
                 cuisineList
          else cuisineList)"

definition cuisineOfName :: "string \<Rightarrow> string \<times> string \<Rightarrow> string list \<Rightarrow> string list" where
  "cuisineOfName placeName entry cuisineList =
     (if str_includes (toLowerCase placeName) (fst entry) \<and> snd entry \<noteq> []
      then pushUnique (snd entry) cuisineList
      else cuisineList)"

definition mapGoogleTypesToCuisines :: "string list option \<Rightarrow> string \<Rightarrow> string list" where
  "mapGoogleTypesToCuisines googleTypes placeName =
     (case googleTypes of
        None \<Rightarrow> [''Miscellaneous'']
      | Some ts \<Rightarrow>
          (let c1 = fold cuisineOfType ts [];
               c2 = fold (cuisineOfName placeName) nameKeywords c1;
               c3 = (if ''restaurant'' \<in> set ts \<and> length c2 = 0 then c2 @ [''Restaurant''] else c2);
               c4 = (if length c3 = 0 then c3 @ [''Food''] else c3)
           in uniqueInOrder c4))"

definition mapGoogleTypesToDietary :: "string list option \<Rightarrow> string list" where
  "mapGoogleTypesToDietary googleTypes =
     (case googleTypes of
        None \<Rightarrow> []
      | Some ts \<Rightarrow>
          (let d1 = (if ''vegetarian_restaurant'' \<in> set ts then [''vegetarian''] else []);
               d2 = (if ''vegan_restaurant'' \<in> set ts then d1 @ [''vegan''] else d1)
           in uniqueInOrder d2))"

text \<open>
  One entry of the provider's \<^verbatim>\<open>results\<close>, the parsed body, and the HTTP response with
  its two readers. A thrown value is an \<open>exception\<close>; a computation that may throw
  returns \<open>exception + 'a\<close>. \<open>fetch\<close> is given the query text and the key.
\<close>

datatype exception = Exception string

record Place =
  place_id :: string
  place_name :: "string option"
  formatted_address :: "string option"
  vicinity :: "string option"
  place_types :: "string list option"
  place_rating :: "real option"

record PlacesData =
  data_status :: string
  data_error_message :: "string option"
  data_results :: "Place list option"

record Response =
  resp_ok :: bool
  text_body :: "exception + string"
  json_body :: "exception + PlacesData"

definition orElse :: "string option \<Rightarrow> string option \<Rightarrow> string option" where
  "orElse a b = (if truthyString a then a else b)"

definition mapPlace :: "Place \<Rightarrow> RestaurantData" where
  "mapPlace place =
     \<lparr>googlePlaceId = place_id place,
      r_name = (case orElse (place_name place) (Some ''Name N/A'') of Some n \<Rightarrow> n | None \<Rightarrow> []),
      address = (case orElse (orElse (formatted_address place) (vicinity place)) (Some ''Address N/A'')
                 of Some a \<Rightarrow> a | None \<Rightarrow> []),
      cuisines = mapGoogleTypesToCuisines (place_types place)
                   (case orElse (place_name place) (Some []) of Some n \<Rightarrow> n | None \<Rightarrow> []),
      dietaryOptions = mapGoogleTypesToDietary (place_types place),
      rating = (case place_rating place of None \<Rightarrow> 0 | Some x \<Rightarrow> x)\<rparr>"

text \<open>The statements inside the \<^verbatim>\<open>try\<close> block, and the function with its guard on the
  key and its \<^verbatim>\<open>catch\<close>, which returns the empty list.\<close>

definition fetchBody ::
  "(string \<Rightarrow> string \<Rightarrow> exception + Response) \<Rightarrow> string \<Rightarrow> string \<Rightarrow> nat
     \<Rightarrow> exception + RestaurantData list" where
  "fetchBody fetch key query maxResults =
     (case fetch query key of
        Inl e \<Rightarrow> Inl e
      | Inr response \<Rightarrow>
          if \<not> resp_ok response
          then (case text_body response of Inl e \<Rightarrow> Inl e | Inr errorBody \<Rightarrow> Inr [])
          else (case json_body response of
                  Inl e \<Rightarrow> Inl e
                | Inr data \<Rightarrow>
                    if data_status data \<noteq> ''OK'' \<and> data_status data \<noteq> ''ZERO_RESULTS'' then Inr []
                    else if data_status data = ''ZERO_RESULTS'' \<or> \<not> nonEmptyList (data_results data)
                    then Inr []
                    else Inr (map mapPlace (take maxResults (the (data_results data))))))"

definition fetchRestaurantsFromGooglePlaces ::
  "string option \<Rightarrow> (string \<Rightarrow> string \<Rightarrow> exception + Response) \<Rightarrow> string \<Rightarrow> nat
     \<Rightarrow> exception + RestaurantData list" where
  "fetchRestaurantsFromGooglePlaces API_KEY fetch locationQuery maxResults =
     (if \<not> truthyString API_KEY then Inr []
      else case fetchBody fetch (the API_KEY) (''restaurants in '' @ locationQuery) maxResults of
             Inl error \<Rightarrow> Inr []
           | Inr fetchedRestaurants \<Rightarrow> Inr fetchedRestaurants)"

section \<open>Vocabulary for the properties of the TV orchestrator\<close>


definition knownTmdbIds :: "TvDatabase \<Rightarrow> nat set" where
  "knownTmdbIds db = tmdb_id ` set (tv_shows db)"

definition recInvariant :: "nat set \<Rightarrow> nat \<Rightarrow> RecState \<Rightarrow> bool" where
  "recInvariant exclude0 count st =
     (excludeTvShowTmdbIds st = exclude0 \<union> tmdb_id ` set (recommendations st)
      \<and> distinct (map tmdb_id (recommendations st))
      \<and> tmdb_id ` set (recommendations st) \<inter> exclude0 = {}
      \<and> length (recommendations st) \<le> count)"

definition progress :: "RecState \<Rightarrow> RecState \<Rightarrow> bool" where
  "progress st st' =
     (excludeTvShowTmdbIds st \<subseteq> excludeTvShowTmdbIds st'
      \<and> knownTmdbIds (database st) \<subseteq> knownTmdbIds (database st')
      \<and> length (recommendations st) \<le> length (recommendations st'))"










section \<open>Sample data for the orchestrators\<close>

definition restaurant_E :: Restaurant where
  "restaurant_E = \<lparr>googlePlaceId = ''place-E'', r_name = ''E'', address = ''e'',
     cuisines = [''Thai''], dietaryOptions = [], rating = 3, r_id = Some 5\<rparr>"

definition restaurant_F :: Restaurant where
  "restaurant_F = \<lparr>googlePlaceId = ''place-F'', r_name = ''F'', address = ''f'',
     cuisines = [''Cafe''], dietaryOptions = [''vegan''], rating = 5, r_id = Some 6\<rparr>"

definition open_user :: User where
  "open_user = \<lparr>user_id = 2, user_name = ''V'', preferences = open_prefs\<rparr>"

definition six_restaurants :: "Restaurant list" where
  "six_restaurants =
     [restaurant_A, restaurant_B, restaurant_C, restaurant_D, restaurant_E, restaurant_F]"

definition sample_tmdb_show :: "nat \<Rightarrow> TMDBTvShow" where
  "sample_tmdb_show i =
     \<lparr>s_id = i, s_name = ''Show'', s_imdb_id = None, s_overview = [],
      s_first_air_date = Some ''2021-03-04'', s_vote_average = 7, s_vote_count = 100,
      s_poster_path = None, s_backdrop_path = None, s_genre_ids = None,
      s_genres = Some [\<lparr>genre_id = 18, genre_name = ''Drama''\<rparr>],
      s_number_of_seasons = Some 2, s_episode_run_time = Some [50],
      s_original_language = Some ''en'', s_external_imdb_id = None\<rparr>"

definition sample_service :: TmdbService where
  "sample_service =
     \<lparr>getPopularTvShows = Some [sample_tmdb_show 1, sample_tmdb_show 2, sample_tmdb_show 3],
      getTMDBTvShowDetails = (\<lambda>i. if i = 1 \<or> i = 2 \<or> i = 3 then Some (sample_tmdb_show i) else None),
      getTMDBCollaborativeRecs = (\<lambda>i. None),
      tvGenreList = []\<rparr>"

definition empty_db :: TvDatabase where
  "empty_db = \<lparr>tv_shows = [], user_tv_show_ratings = [], answerOrder = sort_key tv_show_id\<rparr>"

definition sample_tv_user :: CommonUser where
  "sample_tv_user = \<lparr>user_id = 1, user_name = ''U''\<rparr>"

section \<open>Sample data and vocabulary for the stores and the provider client\<close>

definition place_first :: RestaurantData where
  "place_first = \<lparr>googlePlaceId = ''place-A'', r_name = ''A'', address = ''a'',
     cuisines = [''Italian''], dietaryOptions = [''vegetarian''], rating = 4.5\<rparr>"

definition place_update :: RestaurantData where
  "place_update = \<lparr>googlePlaceId = ''place-A'', r_name = ''A renamed'', address = ''a'',
     cuisines = [''Italian'', ''Pizza''], dietaryOptions = [''vegetarian''], rating = 3\<rparr>"

definition sample_tmdb_update :: TMDBTvShow where
  "sample_tmdb_update = (sample_tmdb_show 1)\<lparr>s_name := ''Renamed'', s_vote_average := 8\<rparr>"

text \<open>
  The failure modes of the provider fetch, and when each occurs for a key, a \<open>fetch\<close>
  behaviour and a location: no key; \<open>fetch\<close> throws; the response is not OK (whether
  or not reading its text throws); reading the body as JSON throws; the body carries
  a status other than OK and ZERO_RESULTS; the body carries ZERO_RESULTS or no
  results.
\<close>

datatype FailureMode =
  MissingApiKey | FetchThrows | HttpNotOk | ParseThrows | ApiStatusError | ZeroResults

definition fetchedResponse ::
  "string option \<Rightarrow> (string \<Rightarrow> string \<Rightarrow> exception + Response) \<Rightarrow> string \<Rightarrow> Response option" where
  "fetchedResponse API_KEY fetch locationQuery =
     (if truthyString API_KEY
      then (case fetch (''restaurants in '' @ locationQuery) (the API_KEY) of
              Inl e \<Rightarrow> None | Inr response \<Rightarrow> Some response)
      else None)"

definition parsedData ::
  "string option \<Rightarrow> (string \<Rightarrow> string \<Rightarrow> exception + Response) \<Rightarrow> string \<Rightarrow> PlacesData option" where
  "parsedData API_KEY fetch locationQuery =
     (case fetchedResponse API_KEY fetch locationQuery of
        None \<Rightarrow> None
      | Some response \<Rightarrow>
          if resp_ok response
          then (case json_body response of Inl e \<Rightarrow> None | Inr data \<Rightarrow> Some data)
          else None)"

fun occurs ::
  "FailureMode \<Rightarrow> string option \<Rightarrow> (string \<Rightarrow> string \<Rightarrow> exception + Response) \<Rightarrow> string \<Rightarrow> bool" where
  "occurs MissingApiKey API_KEY fetch locationQuery = (\<not> truthyString API_KEY)"
| "occurs FetchThrows API_KEY fetch locationQuery =
     (truthyString API_KEY \<and> isl (fetch (''restaurants in '' @ locationQuery) (the API_KEY)))"
| "occurs HttpNotOk API_KEY fetch locationQuery =
     (case fetchedResponse API_KEY fetch locationQuery of
        None \<Rightarrow> False | Some response \<Rightarrow> \<not> resp_ok response)"
| "occurs ParseThrows API_KEY fetch locationQuery =
     (case fetchedResponse API_KEY fetch locationQuery of
        None \<Rightarrow> False | Some response \<Rightarrow> resp_ok response \<and> isl (json_body response))"
| "occurs ApiStatusError API_KEY fetch locationQuery =
     (case parsedData API_KEY fetch locationQuery of
        None \<Rightarrow> False
      | Some data \<Rightarrow> data_status data \<noteq> ''OK'' \<and> data_status data \<noteq> ''ZERO_RESULTS'')"
| "occurs ZeroResults API_KEY fetch locationQuery =
     (case parsedData API_KEY fetch locationQuery of
        None \<Rightarrow> False
      | Some data \<Rightarrow> data_status data = ''ZERO_RESULTS'' \<or> \<not> nonEmptyList (data_results data))"

definition failing_fetch :: "string \<Rightarrow> string \<Rightarrow> exception + Response" where
  "failing_fetch query key = Inl (Exception ''fetch failed'')"

definition denied_fetch :: "string \<Rightarrow> string \<Rightarrow> exception + Response" where
  "denied_fetch query key =
     Inr \<lparr>resp_ok = True, text_body = Inr [],
          json_body = Inr \<lparr>data_status = ''REQUEST_DENIED'',
                            data_error_message = Some ''The provided API key is invalid.'',
                            data_results = None\<rparr>\<rparr>"

definition sample_place :: Place where
  "sample_place =
     \<lparr>place_id = ''g-1'', place_name = Some ''Luigi Pasta House'',
      formatted_address = None, vicinity = Some ''1 Main St'',
      place_types = Some [''italian_restaurant'', ''vegetarian_restaurant'', ''restaurant''],
      place_rating = Some 4.4\<rparr>"

definition ok_fetch :: "string \<Rightarrow> string \<Rightarrow> exception + Response" where
  "ok_fetch query key =
     Inr \<lparr>resp_ok = True, text_body = Inr [],
          json_body = Inr \<lparr>data_status = ''OK'', data_error_message = None,
                            data_results = Some [sample_place, sample_place]\<rparr>\<rparr>"

section \<open>Proofs: the restaurant scenario\<close>










section \<open>Proofs: TV store and orchestrator\<close>

lemma fold_max_ge: "(m::nat) \<le> fold max ids m"
  by (induction ids arbitrary: m) (auto intro: order_trans [OF max.cobounded2])

lemma fold_max_mem: "(i::nat) \<in> set ids \<Longrightarrow> i \<le> fold max ids m"
proof (induction ids arbitrary: m)
  case Nil
  then show ?case by simp
next
  case (Cons a ids)
  show ?case
  proof (cases "i = a")
    case True
    have "a \<le> max a m" by simp
    also have "\<dots> \<le> fold max ids (max a m)" by (rule fold_max_ge)
    finally show ?thesis using True by simp
  next
    case False
    then show ?thesis using Cons by simp
  qed
qed

lemma lastID_fresh: "i \<in> set ids \<Longrightarrow> i < lastID ids"
  by (simp add: lastID_def fold_max_mem less_Suc_eq_le)

lemma find_append_fresh:
  "\<forall>x \<in> set xs. \<not> P x \<Longrightarrow> P y \<Longrightarrow> find P (xs @ [y]) = Some y"
  by (induction xs) auto

lemma find_Some_P: "find P xs = Some x \<Longrightarrow> P x \<and> x \<in> set xs"
  by (induction xs) (auto split: if_splits)

lemma find_map_update:
  "find (\<lambda>row. tmdb_id row = k) rows = Some e \<Longrightarrow> (\<And>row. tmdb_id (f row) = tmdb_id row)
   \<Longrightarrow> find (\<lambda>row. tmdb_id row = k) (map (\<lambda>row. if tmdb_id row = k then f row else row) rows)
       = Some (f e)"
  by (induction rows) (auto split: if_splits)

lemma tmdb_id_updateRow [simp]: "tmdb_id (updateRow gl d row) = tmdb_id row"
  by (simp add: updateRow_def)

lemma tv_id_updateRow [simp]: "tv_id (updateRow gl d row) = tv_id row"
  by (simp add: updateRow_def)

lemma saveTvShow_existing:
  assumes "find (\<lambda>row. tmdb_id row = s_id d) (tv_shows db) = Some e"
  shows "saveTvShow gl d db =
     (Some (updateRow gl d e),
      db\<lparr>tv_shows := map (\<lambda>row. if tmdb_id row = s_id d then updateRow gl d row else row) (tv_shows db)\<rparr>)"
  using assms find_map_update [OF assms, of "updateRow gl d"]
  by (simp add: saveTvShow_def getTvShowByTmdbId_def Let_def)

lemma saveTvShow_new:
  assumes "find (\<lambda>row. tmdb_id row = s_id d) (tv_shows db) = None"
  shows "saveTvShow gl d db =
     (Some (insertRow gl d (lastID (map tv_id (tv_shows db)))),
      db\<lparr>tv_shows := tv_shows db @ [insertRow gl d (lastID (map tv_id (tv_shows db)))]\<rparr>)"
proof -
  let ?n = "lastID (map tv_id (tv_shows db))"
  have "\<forall>x \<in> set (tv_shows db). tv_id x \<noteq> ?n"
    using lastID_fresh [of _ "map tv_id (tv_shows db)"] by fastforce
  then have "find (\<lambda>row. tv_id row = ?n) (tv_shows db @ [insertRow gl d ?n]) = Some (insertRow gl d ?n)"
    by (intro find_append_fresh) (auto simp: insertRow_def)
  then show ?thesis
    using assms by (simp add: saveTvShow_def getTvShowByOurId_def Let_def lastID_def)
qed

lemma saveTvShow_cases:
  obtains e where "find (\<lambda>row. tmdb_id row = s_id d) (tv_shows db) = Some e"
      "saveTvShow gl d db = (Some (updateRow gl d e),
        db\<lparr>tv_shows := map (\<lambda>row. if tmdb_id row = s_id d then updateRow gl d row else row) (tv_shows db)\<rparr>)"
  | "find (\<lambda>row. tmdb_id row = s_id d) (tv_shows db) = None"
      "saveTvShow gl d db = (Some (insertRow gl d (lastID (map tv_id (tv_shows db)))),
        db\<lparr>tv_shows := tv_shows db @ [insertRow gl d (lastID (map tv_id (tv_shows db)))]\<rparr>)"
  using saveTvShow_existing saveTvShow_new by (cases "find (\<lambda>row. tmdb_id row = s_id d) (tv_shows db)") auto

lemma saveTvShow_returns:
  "\<exists>sh db'. saveTvShow gl d db = (Some sh, db') \<and> tmdb_id sh = s_id d
      \<and> knownTmdbIds db' = insert (s_id d) (knownTmdbIds db)"
proof (rule saveTvShow_cases [of d db gl])
  fix e
  assume f: "find (\<lambda>row. tmdb_id row = s_id d) (tv_shows db) = Some e"
    and s: "saveTvShow gl d db = (Some (updateRow gl d e),
        db\<lparr>tv_shows := map (\<lambda>row. if tmdb_id row = s_id d then updateRow gl d row else row) (tv_shows db)\<rparr>)"
  from find_Some_P [OF f] have e: "tmdb_id e = s_id d" "e \<in> set (tv_shows db)" by auto
  have "map tmdb_id (map (\<lambda>row. if tmdb_id row = s_id d then updateRow gl d row else row) (tv_shows db))
      = map tmdb_id (tv_shows db)"
    by (induction "tv_shows db") auto
  then have "tmdb_id ` set (map (\<lambda>row. if tmdb_id row = s_id d then updateRow gl d row else row) (tv_shows db))
      = tmdb_id ` set (tv_shows db)"
    by (metis set_map)
  moreover have "s_id d \<in> tmdb_id ` set (tv_shows db)" using e by force
  ultimately show ?thesis using s e by (auto simp: knownTmdbIds_def)
next
  assume "saveTvShow gl d db = (Some (insertRow gl d (lastID (map tv_id (tv_shows db)))),
        db\<lparr>tv_shows := tv_shows db @ [insertRow gl d (lastID (map tv_id (tv_shows db)))]\<rparr>)"
  then show ?thesis by (auto simp: knownTmdbIds_def insertRow_def)
qed

lemma progress_refl [simp]: "progress st st"
  by (simp add: progress_def)


lemma recInvariant_database [simp]:
  "recInvariant ex0 count (st\<lparr>database := db'\<rparr>) = recInvariant ex0 count st"
  by (simp add: recInvariant_def)



lemma push_database [simp]: "database (pushUnlessPresent sh st) = database st"
  by (simp add: pushUnlessPresent_def)







lemma progress_exclude: "progress st st' \<Longrightarrow> i \<in> excludeTvShowTmdbIds st \<Longrightarrow> i \<in> excludeTvShowTmdbIds st'"
  by (auto simp: progress_def)

lemma progress_length:
  "progress st st' \<Longrightarrow> count \<le> length (recommendations st) \<Longrightarrow> count \<le> length (recommendations st')"
  by (auto simp: progress_def)

lemma progress_known:
  "progress st st' \<Longrightarrow> i \<in> knownTmdbIds (database st) \<Longrightarrow> i \<in> knownTmdbIds (database st')"
  by (auto simp: progress_def)
























section \<open>Proofs: TV scorer\<close>

lemmas tv_step_defs = genreStep_def languageStep_def yearStep_def durationStep_def
  voteStep_def providerStep_def




























section \<open>Proofs: the scoring engines\<close>





































section \<open>Proofs: the orchestrators\<close>

















section \<open>Proofs: the stores and the provider client\<close>

lemma updateRow_idem [simp]: "updateRow gl d (updateRow gl d row) = updateRow gl d row"
  by (simp add: updateRow_def)

lemma updateRow_insertRow:
  "tmdb_id row = s_id d \<Longrightarrow> updateRow gl d row = insertRow gl d (tv_id row)"
  by (simp add: updateRow_def insertRow_def)

lemma map_update_twice:
  "map (\<lambda>row. if tmdb_id row = k then updateRow gl d row else row)
     (map (\<lambda>row. if tmdb_id row = k then updateRow gl d row else row) rows)
   = map (\<lambda>row. if tmdb_id row = k then updateRow gl d row else row) rows"
  by (induction rows) simp_all

lemma map_update_none:
  "\<forall>row \<in> set rows. tmdb_id row \<noteq> k \<Longrightarrow>
     map (\<lambda>row. if tmdb_id row = k then f row else row) rows = rows"
  by (induction rows) simp_all

lemma map_ids_update:
  "map tv_id (map (\<lambda>row. if tmdb_id row = k then updateRow gl d row else row) rows) = map tv_id rows"
  "map tmdb_id (map (\<lambda>row. if tmdb_id row = k then updateRow gl d row else row) rows) = map tmdb_id rows"
  by (induction rows) simp_all

lemma saveTvShow_idempotent:
  assumes "saveTvShow gl d db = (r, db1)"
  shows "saveTvShow gl d db1 = (r, db1)"
proof (rule saveTvShow_cases [of d db gl])
  fix e
  assume f: "find (\<lambda>row. tmdb_id row = s_id d) (tv_shows db) = Some e"
    and s: "saveTvShow gl d db = (Some (updateRow gl d e),
        db\<lparr>tv_shows := map (\<lambda>row. if tmdb_id row = s_id d then updateRow gl d row else row) (tv_shows db)\<rparr>)"
  have r: "r = Some (updateRow gl d e)"
    and db1: "db1 = db\<lparr>tv_shows := map (\<lambda>row. if tmdb_id row = s_id d then updateRow gl d row else row) (tv_shows db)\<rparr>"
    using assms s by simp_all
  have "find (\<lambda>row. tmdb_id row = s_id d) (tv_shows db1) = Some (updateRow gl d e)"
    unfolding db1 using find_map_update [OF f, of "updateRow gl d"] by simp
  from saveTvShow_existing [OF this, of gl] show ?thesis
    unfolding r by (simp add: db1 map_update_twice)
next
  let ?new = "insertRow gl d (lastID (map tv_id (tv_shows db)))"
  assume f: "find (\<lambda>row. tmdb_id row = s_id d) (tv_shows db) = None"
    and s: "saveTvShow gl d db = (Some ?new, db\<lparr>tv_shows := tv_shows db @ [?new]\<rparr>)"
  have r: "r = Some ?new" and db1: "db1 = db\<lparr>tv_shows := tv_shows db @ [?new]\<rparr>"
    using assms s by simp_all
  have none: "\<forall>row \<in> set (tv_shows db). tmdb_id row \<noteq> s_id d"
    using f by (simp add: find_None_iff)
  have t: "tmdb_id ?new = s_id d" by (simp add: insertRow_def)
  have "find (\<lambda>row. tmdb_id row = s_id d) (tv_shows db1) = Some ?new"
    unfolding db1 using find_append_fresh [of "tv_shows db" "\<lambda>row. tmdb_id row = s_id d" ?new] none t
    by simp
  from saveTvShow_existing [OF this, of gl] show ?thesis
    unfolding r using t none
    by (simp add: db1 map_update_none updateRow_insertRow insertRow_def)
qed

lemma filter_eq_singleton:
  "distinct (map f xs) \<Longrightarrow> x \<in> set xs \<Longrightarrow> length (filter (\<lambda>y. f y = f x) xs) = 1"
proof (induction xs)
  case Nil
  then show ?case by simp
next
  case (Cons a xs)
  show ?case
  proof (cases "f a = f x")
    case True
    then have "\<forall>y \<in> set xs. f y \<noteq> f x" using Cons.prems(1) by (auto simp: image_iff)
    then have "filter (\<lambda>y. f y = f x) xs = []" by (simp add: filter_empty_conv)
    then show ?thesis using True by simp
  next
    case False
    then have "x \<in> set xs" using Cons.prems(2) by auto
    then show ?thesis using Cons False by simp
  qed
qed

lemma saveTvShow_one_row:
  assumes "distinct (map tmdb_id (tv_shows db))"
  shows "distinct (map tmdb_id (tv_shows (snd (saveTvShow gl d db))))
       \<and> length (filter (\<lambda>row. tmdb_id row = s_id d) (tv_shows (snd (saveTvShow gl d db)))) = 1
       \<and> (\<exists>sh. fst (saveTvShow gl d db) = Some sh \<and> tmdb_id sh = s_id d
              \<and> sh \<in> set (tv_shows (snd (saveTvShow gl d db))))"
proof (rule saveTvShow_cases [of d db gl])
  fix e
  let ?rows1 = "map (\<lambda>row. if tmdb_id row = s_id d then updateRow gl d row else row) (tv_shows db)"
  assume f: "find (\<lambda>row. tmdb_id row = s_id d) (tv_shows db) = Some e"
    and s: "saveTvShow gl d db = (Some (updateRow gl d e), db\<lparr>tv_shows := ?rows1\<rparr>)"
  have e: "tmdb_id e = s_id d" "e \<in> set (tv_shows db)" using find_Some_P [OF f] by auto
  have d1: "distinct (map tmdb_id ?rows1)" using assms by (simp only: map_ids_update)
  have m: "updateRow gl d e \<in> set ?rows1" using e by force
  have "length (filter (\<lambda>y. tmdb_id y = tmdb_id (updateRow gl d e)) ?rows1) = 1"
    using d1 m by (rule filter_eq_singleton)
  then show ?thesis using s d1 m e by simp
next
  let ?new = "insertRow gl d (lastID (map tv_id (tv_shows db)))"
  assume f: "find (\<lambda>row. tmdb_id row = s_id d) (tv_shows db) = None"
    and s: "saveTvShow gl d db = (Some ?new, db\<lparr>tv_shows := tv_shows db @ [?new]\<rparr>)"
  have none: "\<forall>row \<in> set (tv_shows db). tmdb_id row \<noteq> s_id d"
    using f by (simp add: find_None_iff)
  have t: "tmdb_id ?new = s_id d" by (simp add: insertRow_def)
  have d1: "distinct (map tmdb_id (tv_shows db @ [?new]))"
    using assms none t by (auto simp: image_iff)
  have "length (filter (\<lambda>y. tmdb_id y = tmdb_id ?new) (tv_shows db @ [?new])) = 1"
    using d1 by (rule filter_eq_singleton) simp
  then show ?thesis using s d1 t by simp
qed

lemma saveTvShow_update_in_place:
  assumes "fst (saveTvShow gl d db) = Some sh" and same: "s_id d' = s_id d"
  shows "fst (saveTvShow gl d' (snd (saveTvShow gl d db))) = Some (insertRow gl d' (tv_id sh))
       \<and> map tv_id (tv_shows (snd (saveTvShow gl d' (snd (saveTvShow gl d db)))))
           = map tv_id (tv_shows (snd (saveTvShow gl d db)))
       \<and> map tmdb_id (tv_shows (snd (saveTvShow gl d' (snd (saveTvShow gl d db)))))
           = map tmdb_id (tv_shows (snd (saveTvShow gl d db)))
       \<and> getTvShowByTmdbId (snd (saveTvShow gl d' (snd (saveTvShow gl d db)))) (s_id d)
           = Some (insertRow gl d' (tv_id sh))"
proof -
  obtain db1 where s1: "saveTvShow gl d db = (Some sh, db1)"
    using assms(1) by (cases "saveTvShow gl d db") auto
  have again: "saveTvShow gl d db1 = (Some sh, db1)" using s1 by (rule saveTvShow_idempotent)
  have f1: "find (\<lambda>row. tmdb_id row = s_id d') (tv_shows db1) = Some sh"
  proof (rule saveTvShow_cases [of d db1 gl])
    fix e
    assume f: "find (\<lambda>row. tmdb_id row = s_id d) (tv_shows db1) = Some e"
      and s: "saveTvShow gl d db1 = (Some (updateRow gl d e),
          db1\<lparr>tv_shows := map (\<lambda>row. if tmdb_id row = s_id d then updateRow gl d row else row) (tv_shows db1)\<rparr>)"
    have "sh = updateRow gl d e" using s again by simp
    moreover have "db1 = db1\<lparr>tv_shows := map (\<lambda>row. if tmdb_id row = s_id d then updateRow gl d row else row) (tv_shows db1)\<rparr>"
      using s again by simp
    then have "tv_shows db1 = map (\<lambda>row. if tmdb_id row = s_id d then updateRow gl d row else row) (tv_shows db1)"
      by (metis TvDatabase.select_convs(1) TvDatabase.surjective TvDatabase.update_convs(1))
    then have "find (\<lambda>row. tmdb_id row = s_id d) (tv_shows db1) = Some (updateRow gl d e)"
      using find_map_update [OF f, of "updateRow gl d"] by simp
    ultimately show ?thesis using same by simp
  next
    assume "saveTvShow gl d db1 = (Some (insertRow gl d (lastID (map tv_id (tv_shows db1)))),
        db1\<lparr>tv_shows := tv_shows db1 @ [insertRow gl d (lastID (map tv_id (tv_shows db1)))]\<rparr>)"
    then have "tv_shows db1 = tv_shows db1 @ [insertRow gl d (lastID (map tv_id (tv_shows db1)))]"
      using again by (metis TvDatabase.select_convs(1) TvDatabase.surjective TvDatabase.update_convs(1) snd_conv)
    then show ?thesis by simp
  qed
  have t: "tmdb_id sh = s_id d'" using find_Some_P [OF f1] by simp
  let ?rows2 = "map (\<lambda>row. if tmdb_id row = s_id d' then updateRow gl d' row else row) (tv_shows db1)"
  have s2: "saveTvShow gl d' db1 = (Some (updateRow gl d' sh), db1\<lparr>tv_shows := ?rows2\<rparr>)"
    using f1 by (rule saveTvShow_existing)
  have u: "updateRow gl d' sh = insertRow gl d' (tv_id sh)" using t by (rule updateRow_insertRow)
  have "getTvShowByTmdbId (db1\<lparr>tv_shows := ?rows2\<rparr>) (s_id d) = Some (updateRow gl d' sh)"
    using find_map_update [OF f1, of "updateRow gl d'"] same by (simp add: getTvShowByTmdbId_def)
  then show ?thesis
    using s1 s2 u by (simp add: map_ids_update)
qed

lemma saveRestaurant_existing:
  assumes "find (\<lambda>row. row_googlePlaceId row = googlePlaceId restaurantData) rows = Some e"
  shows "saveRestaurantToDb restaurantData rows = (Some (StoredRow e), rows)"
  using assms by (simp add: saveRestaurantToDb_def)

lemma saveRestaurant_new:
  assumes "find (\<lambda>row. row_googlePlaceId row = googlePlaceId restaurantData) rows = None"
  shows "saveRestaurantToDb restaurantData rows =
     (Some (ParsedRecord (parseRow (insertRestaurantRow restaurantData (lastID (map row_id rows))))),
      rows @ [insertRestaurantRow restaurantData (lastID (map row_id rows))])"
proof -
  let ?n = "lastID (map row_id rows)"
  let ?new = "insertRestaurantRow restaurantData ?n"
  have id: "row_id ?new = ?n" by (simp add: insertRestaurantRow_def)
  have "\<forall>x \<in> set rows. \<not> row_id x = ?n"
  proof
    fix x assume "x \<in> set rows"
    then have "row_id x \<in> set (map row_id rows)" by simp
    then have "row_id x < ?n" by (rule lastID_fresh)
    then show "\<not> row_id x = ?n" by simp
  qed
  then have "find (\<lambda>row. row_id row = ?n) (rows @ [?new]) = Some ?new"
    using id by (intro find_append_fresh) auto
  then show ?thesis
    using assms by (simp add: saveRestaurantToDb_def getRestaurantById_def Let_def lastID_def)
qed

lemma place_of_insertRestaurantRow [simp]:
  "row_googlePlaceId (insertRestaurantRow restaurantData n) = googlePlaceId restaurantData"
  by (simp add: insertRestaurantRow_def)

lemma id_of_insertRestaurantRow [simp]:
  "row_id (insertRestaurantRow restaurantData n) = n"
  by (simp add: insertRestaurantRow_def)

lemma id_of_parseRow [simp]: "r_id (parseRow row) = Some (row_id row)"
  by (simp add: parseRow_def)

text \<open>The second of two calls with the same place id finds the row of that place id
  and returns it as stored.\<close>

lemma saveRestaurant_again:
  assumes same: "googlePlaceId restaurantData' = googlePlaceId restaurantData"
  shows "\<exists>sv row. fst (saveRestaurantToDb restaurantData rows) = Some sv
          \<and> saveRestaurantToDb restaurantData' (snd (saveRestaurantToDb restaurantData rows))
              = (Some (StoredRow row), snd (saveRestaurantToDb restaurantData rows))
          \<and> savedId sv = Some (row_id row)
          \<and> row \<in> set (snd (saveRestaurantToDb restaurantData rows))
          \<and> row_googlePlaceId row = googlePlaceId restaurantData"
proof (cases "find (\<lambda>row. row_googlePlaceId row = googlePlaceId restaurantData) rows")
  case None
  let ?new = "insertRestaurantRow restaurantData (lastID (map row_id rows))"
  have "\<forall>x \<in> set rows. \<not> row_googlePlaceId x = googlePlaceId restaurantData"
    using None by (simp add: find_None_iff)
  then have "find (\<lambda>row. row_googlePlaceId row = googlePlaceId restaurantData') (rows @ [?new])
      = Some ?new"
    unfolding same by (intro find_append_fresh) auto
  then show ?thesis
    using saveRestaurant_new [OF None] by (simp add: saveRestaurant_existing)
next
  case (Some e)
  then have "row_googlePlaceId e = googlePlaceId restaurantData" "e \<in> set rows"
    using find_Some_P [OF Some] by auto
  then show ?thesis
    using Some same by (simp add: saveRestaurant_existing)
qed

lemma saveRestaurant_one_row:
  assumes "distinct (map row_googlePlaceId rows)"
  shows "length (filter (\<lambda>row. row_googlePlaceId row = googlePlaceId restaurantData)
           (snd (saveRestaurantToDb restaurantData rows))) = 1"
proof (cases "find (\<lambda>row. row_googlePlaceId row = googlePlaceId restaurantData) rows")
  case None
  then have "\<forall>x \<in> set rows. \<not> row_googlePlaceId x = googlePlaceId restaurantData"
    by (simp add: find_None_iff)
  then have "filter (\<lambda>row. row_googlePlaceId row = googlePlaceId restaurantData) rows = []"
    by (simp add: filter_empty_conv)
  then show ?thesis using saveRestaurant_new [OF None] by simp
next
  case (Some e)
  then have e: "row_googlePlaceId e = googlePlaceId restaurantData" "e \<in> set rows"
    using find_Some_P [OF Some] by auto
  have "length (filter (\<lambda>y. row_googlePlaceId y = row_googlePlaceId e) rows) = 1"
    using assms e(2) by (rule filter_eq_singleton)
  then show ?thesis using Some e by (simp add: saveRestaurant_existing)
qed

lemma save_place_first:
  "saveRestaurantToDb place_first [] =
     (Some (ParsedRecord (parseRow (insertRestaurantRow place_first 1))),
      [insertRestaurantRow place_first 1])"
  by (simp add: saveRestaurant_new lastID_def)

lemma save_place_update:
  "saveRestaurantToDb place_update [insertRestaurantRow place_first 1] =
     (Some (StoredRow (insertRestaurantRow place_first 1)), [insertRestaurantRow place_first 1])"
  by (simp add: saveRestaurant_existing place_first_def place_update_def)

text \<open>
  C5, as the claim states it, fails for the restaurant store. A place is stored with
  rating 4.5 and cuisines Italian. Saving the same place id again with a new name, the
  cuisines Italian and Pizza and the rating 3 leaves the table as it was, one row with
  the local id 1, rating 4.5 and the JSON text of the first cuisines: the stored
  attributes are not refreshed. The second call returns that stored row.
\<close>

theorem C5_restaurant_not_refreshed_counterexample:
  "googlePlaceId place_update = googlePlaceId place_first
   \<and> rating place_update = 3 \<and> cuisines place_update = [''Italian'', ''Pizza'']
   \<and> snd (saveRestaurantToDb place_update (snd (saveRestaurantToDb place_first [])))
       = snd (saveRestaurantToDb place_first [])
   \<and> map row_id (snd (saveRestaurantToDb place_update (snd (saveRestaurantToDb place_first []))))
       = [1]
   \<and> map row_rating (snd (saveRestaurantToDb place_update (snd (saveRestaurantToDb place_first []))))
       = [4.5]
   \<and> map row_cuisines (snd (saveRestaurantToDb place_update (snd (saveRestaurantToDb place_first []))))
       = [Some (JSON_stringify [''Italian''])]
   \<and> map rating (getAllRestaurantsFromDb
        (snd (saveRestaurantToDb place_update (snd (saveRestaurantToDb place_first []))))) = [4.5]
   \<and> fst (saveRestaurantToDb place_update (snd (saveRestaurantToDb place_first [])))
       = Some (StoredRow (insertRestaurantRow place_first 1))"
  unfolding save_place_first snd_conv save_place_update fst_conv
  by (simp add: getAllRestaurantsFromDb_def parseRow_def insertRestaurantRow_def
      place_first_def place_update_def)

text \<open>
  C5, amended. TV store (provider ids pairwise different in the table): saving a show
  leaves exactly one row with its provider id; saving the same data again changes
  nothing and returns the same record; saving other data under the same provider id
  returns and stores the row that carries the new attributes and the old local id, and
  the local ids and provider ids of all rows stay as they were. Restaurant store
  (place ids pairwise different): saving a place leaves exactly one row with its place
  id. A second call under the same place id, with identical or with updated data,
  leaves the table exactly as the first call left it, so it adds no row and refreshes
  no stored attribute; both calls return a value, the \<^verbatim>\<open>id\<close> of both is the local id of
  the one row with that place id, and the second call returns that row as stored.
  When the place id was not stored before the first call, the first call returns the
  parsed record of the row it inserted and the second call returns that row itself,
  the cuisines and dietary options as JSON text.
\<close>

theorem C5_upsert:
  "(distinct (map tmdb_id (tv_shows db)) \<longrightarrow>
      length (filter (\<lambda>row. tmdb_id row = s_id d) (tv_shows (snd (saveTvShow gl d db)))) = 1)
   \<and> saveTvShow gl d (snd (saveTvShow gl d db)) = saveTvShow gl d db
   \<and> (s_id d' = s_id d \<longrightarrow>
        (\<exists>sh. fst (saveTvShow gl d db) = Some sh
           \<and> fst (saveTvShow gl d' (snd (saveTvShow gl d db))) = Some (insertRow gl d' (tv_id sh))
           \<and> getTvShowByTmdbId (snd (saveTvShow gl d' (snd (saveTvShow gl d db)))) (s_id d)
                = Some (insertRow gl d' (tv_id sh)))
        \<and> map tv_id (tv_shows (snd (saveTvShow gl d' (snd (saveTvShow gl d db)))))
            = map tv_id (tv_shows (snd (saveTvShow gl d db)))
        \<and> map tmdb_id (tv_shows (snd (saveTvShow gl d' (snd (saveTvShow gl d db)))))
            = map tmdb_id (tv_shows (snd (saveTvShow gl d db))))
   \<and> (distinct (map row_googlePlaceId rows) \<longrightarrow>
        length (filter (\<lambda>row. row_googlePlaceId row = googlePlaceId restaurantData)
           (snd (saveRestaurantToDb restaurantData rows))) = 1)
   \<and> (googlePlaceId restaurantData' = googlePlaceId restaurantData \<longrightarrow>
        snd (saveRestaurantToDb restaurantData' (snd (saveRestaurantToDb restaurantData rows)))
          = snd (saveRestaurantToDb restaurantData rows)
        \<and> (\<exists>sv row. fst (saveRestaurantToDb restaurantData rows) = Some sv
              \<and> fst (saveRestaurantToDb restaurantData' (snd (saveRestaurantToDb restaurantData rows)))
                  = Some (StoredRow row)
              \<and> savedId sv = Some (row_id row)
              \<and> row \<in> set (snd (saveRestaurantToDb restaurantData rows))
              \<and> row_googlePlaceId row = googlePlaceId restaurantData))
   \<and> (googlePlaceId restaurantData' = googlePlaceId restaurantData
        \<and> find (\<lambda>row. row_googlePlaceId row = googlePlaceId restaurantData) rows = None \<longrightarrow>
        fst (saveRestaurantToDb restaurantData rows)
          = Some (ParsedRecord (parseRow (insertRestaurantRow restaurantData (lastID (map row_id rows)))))
        \<and> fst (saveRestaurantToDb restaurantData' (snd (saveRestaurantToDb restaurantData rows)))
          = Some (StoredRow (insertRestaurantRow restaurantData (lastID (map row_id rows)))))"
proof (intro conjI impI)
  assume "distinct (map tmdb_id (tv_shows db))"
  then show "length (filter (\<lambda>row. tmdb_id row = s_id d) (tv_shows (snd (saveTvShow gl d db)))) = 1"
    using saveTvShow_one_row by blast
next
  show "saveTvShow gl d (snd (saveTvShow gl d db)) = saveTvShow gl d db"
    using saveTvShow_idempotent [of gl d db "fst (saveTvShow gl d db)" "snd (saveTvShow gl d db)"]
    by simp
next
  assume same: "s_id d' = s_id d"
  obtain sh where sh: "fst (saveTvShow gl d db) = Some sh"
    using saveTvShow_returns [of gl d db] by auto
  note u = saveTvShow_update_in_place [OF sh same]
  show "\<exists>sh. fst (saveTvShow gl d db) = Some sh
           \<and> fst (saveTvShow gl d' (snd (saveTvShow gl d db))) = Some (insertRow gl d' (tv_id sh))
           \<and> getTvShowByTmdbId (snd (saveTvShow gl d' (snd (saveTvShow gl d db)))) (s_id d)
                = Some (insertRow gl d' (tv_id sh))"
    using sh u by blast
  show "map tv_id (tv_shows (snd (saveTvShow gl d' (snd (saveTvShow gl d db)))))
            = map tv_id (tv_shows (snd (saveTvShow gl d db)))"
    using u by blast
  show "map tmdb_id (tv_shows (snd (saveTvShow gl d' (snd (saveTvShow gl d db)))))
            = map tmdb_id (tv_shows (snd (saveTvShow gl d db)))"
    using u by blast
next
  assume "distinct (map row_googlePlaceId rows)"
  then show "length (filter (\<lambda>row. row_googlePlaceId row = googlePlaceId restaurantData)
           (snd (saveRestaurantToDb restaurantData rows))) = 1"
    by (rule saveRestaurant_one_row)
next
  assume same: "googlePlaceId restaurantData' = googlePlaceId restaurantData"
  obtain sv row where a: "fst (saveRestaurantToDb restaurantData rows) = Some sv"
      "saveRestaurantToDb restaurantData' (snd (saveRestaurantToDb restaurantData rows))
              = (Some (StoredRow row), snd (saveRestaurantToDb restaurantData rows))"
      "savedId sv = Some (row_id row)"
      "row \<in> set (snd (saveRestaurantToDb restaurantData rows))"
      "row_googlePlaceId row = googlePlaceId restaurantData"
    using saveRestaurant_again [OF same, of rows] by blast
  show "snd (saveRestaurantToDb restaurantData' (snd (saveRestaurantToDb restaurantData rows)))
          = snd (saveRestaurantToDb restaurantData rows)"
    using a(2) by simp
  show "\<exists>sv row. fst (saveRestaurantToDb restaurantData rows) = Some sv
              \<and> fst (saveRestaurantToDb restaurantData' (snd (saveRestaurantToDb restaurantData rows)))
                  = Some (StoredRow row)
              \<and> savedId sv = Some (row_id row)
              \<and> row \<in> set (snd (saveRestaurantToDb restaurantData rows))
              \<and> row_googlePlaceId row = googlePlaceId restaurantData"
    using a by (intro exI [of _ sv] exI [of _ row]) simp
next
  assume b: "googlePlaceId restaurantData' = googlePlaceId restaurantData
        \<and> find (\<lambda>row. row_googlePlaceId row = googlePlaceId restaurantData) rows = None"
  then have none: "find (\<lambda>row. row_googlePlaceId row = googlePlaceId restaurantData) rows = None"
    by simp
  let ?new = "insertRestaurantRow restaurantData (lastID (map row_id rows))"
  show "fst (saveRestaurantToDb restaurantData rows) = Some (ParsedRecord (parseRow ?new))"
    using saveRestaurant_new [OF none] by simp
  have "\<forall>x \<in> set rows. \<not> row_googlePlaceId x = googlePlaceId restaurantData"
    using none by (simp add: find_None_iff)
  then have "find (\<lambda>row. row_googlePlaceId row = googlePlaceId restaurantData') (rows @ [?new])
      = Some ?new"
    using b by (intro find_append_fresh) auto
  then show "fst (saveRestaurantToDb restaurantData' (snd (saveRestaurantToDb restaurantData rows)))
          = Some (StoredRow ?new)"
    using saveRestaurant_new [OF none] by (simp add: saveRestaurant_existing)
qed

theorem C5_upsert_witness:
  "distinct (map tmdb_id (tv_shows empty_db))
   \<and> s_id sample_tmdb_update = s_id (sample_tmdb_show 1)
   \<and> length (filter (\<lambda>row. tmdb_id row = 1) (tv_shows (snd (saveTvShow [] (sample_tmdb_show 1) empty_db)))) = 1
   \<and> fst (saveTvShow [] (sample_tmdb_show 1) empty_db) = Some (insertRow [] (sample_tmdb_show 1) 1)
   \<and> fst (saveTvShow [] sample_tmdb_update (snd (saveTvShow [] (sample_tmdb_show 1) empty_db)))
       = Some (insertRow [] sample_tmdb_update 1)
   \<and> distinct (map row_googlePlaceId ([]::RestaurantRow list))
   \<and> googlePlaceId place_update = googlePlaceId place_first
   \<and> find (\<lambda>row. row_googlePlaceId row = googlePlaceId place_first) [] = None
   \<and> length (filter (\<lambda>row. row_googlePlaceId row = googlePlaceId place_first)
        (snd (saveRestaurantToDb place_first []))) = 1
   \<and> snd (saveRestaurantToDb place_update (snd (saveRestaurantToDb place_first [])))
       = snd (saveRestaurantToDb place_first [])
   \<and> fst (saveRestaurantToDb place_first [])
       = Some (ParsedRecord (parseRow (insertRestaurantRow place_first 1)))
   \<and> fst (saveRestaurantToDb place_update (snd (saveRestaurantToDb place_first [])))
       = Some (StoredRow (insertRestaurantRow place_first 1))"
proof -
  have h1: "distinct (map tmdb_id (tv_shows empty_db))" by (simp add: empty_db_def)
  have h2: "s_id sample_tmdb_update = s_id (sample_tmdb_show 1)"
    by (simp add: sample_tmdb_update_def)
  have h3: "googlePlaceId place_update = googlePlaceId place_first"
    by (simp add: place_update_def place_first_def)
  have i: "s_id (sample_tmdb_show 1) = 1" by (simp add: sample_tmdb_show_def)
  have f: "fst (saveTvShow [] (sample_tmdb_show 1) empty_db) = Some (insertRow [] (sample_tmdb_show 1) 1)"
    by (simp add: saveTvShow_new empty_db_def lastID_def)
  have l: "lastID (map row_id ([]::RestaurantRow list)) = 1" by (simp add: lastID_def)
  note inst = C5_upsert [of empty_db "sample_tmdb_show 1" "[]" sample_tmdb_update "[]"
      place_first place_update]
  have "length (filter (\<lambda>row. tmdb_id row = 1)
      (tv_shows (snd (saveTvShow [] (sample_tmdb_show 1) empty_db)))) = 1"
    using inst h1 i by simp
  moreover have "fst (saveTvShow [] sample_tmdb_update (snd (saveTvShow [] (sample_tmdb_show 1) empty_db)))
       = Some (insertRow [] sample_tmdb_update 1)"
    using inst h2 f by (auto simp: insertRow_def)
  moreover have "length (filter (\<lambda>row. row_googlePlaceId row = googlePlaceId place_first)
        (snd (saveRestaurantToDb place_first []))) = 1"
    using inst by simp
  moreover have "snd (saveRestaurantToDb place_update (snd (saveRestaurantToDb place_first [])))
       = snd (saveRestaurantToDb place_first [])"
    using inst h3 by blast
  moreover have "fst (saveRestaurantToDb place_first [])
       = Some (ParsedRecord (parseRow (insertRestaurantRow place_first 1)))
     \<and> fst (saveRestaurantToDb place_update (snd (saveRestaurantToDb place_first [])))
       = Some (StoredRow (insertRestaurantRow place_first 1))"
    using inst h3 l by simp
  ultimately show ?thesis using h1 h2 h3 f by simp
qed

lemma fetch_never_throws:
  "\<exists>rs. fetchRestaurantsFromGooglePlaces API_KEY fetch locationQuery maxResults = Inr rs"
  by (simp add: fetchRestaurantsFromGooglePlaces_def split: sum.splits)

lemma fetch_failure_empty:
  assumes "occurs mode API_KEY fetch locationQuery"
  shows "fetchRestaurantsFromGooglePlaces API_KEY fetch locationQuery maxResults = Inr []"
proof (cases "truthyString API_KEY")
  case False
  then show ?thesis by (simp add: fetchRestaurantsFromGooglePlaces_def)
next
  case key: True
  show ?thesis
  proof (cases "fetch (''restaurants in '' @ locationQuery) (the API_KEY)")
    case (Inl e)
    then show ?thesis
      using key by (simp add: fetchRestaurantsFromGooglePlaces_def fetchBody_def)
  next
    case (Inr response)
    then have fr: "fetchedResponse API_KEY fetch locationQuery = Some response"
      using key by (simp add: fetchedResponse_def)
    show ?thesis
    proof (cases "resp_ok response")
      case False
      then show ?thesis
        using key Inr
        by (simp add: fetchRestaurantsFromGooglePlaces_def fetchBody_def split: sum.splits)
    next
      case ok: True
      show ?thesis
      proof (cases "json_body response")
        case (Inl e)
        then show ?thesis
          using key Inr ok by (simp add: fetchRestaurantsFromGooglePlaces_def fetchBody_def)
      next
        case body: (Inr data)
        then have pd: "parsedData API_KEY fetch locationQuery = Some data"
          using fr ok by (simp add: parsedData_def)
        have "data_status data \<noteq> ''OK'' \<or> data_status data = ''ZERO_RESULTS''
            \<or> \<not> nonEmptyList (data_results data)"
          using assms key Inr fr ok body pd by (cases mode) auto
        then show ?thesis
          using key Inr ok body
          by (auto simp: fetchRestaurantsFromGooglePlaces_def fetchBody_def)
      qed
    qed
  qed
qed

lemma fetch_success:
  assumes "\<forall>mode. \<not> occurs mode API_KEY fetch locationQuery"
  shows "\<exists>data places. parsedData API_KEY fetch locationQuery = Some data
           \<and> data_results data = Some places
           \<and> fetchRestaurantsFromGooglePlaces API_KEY fetch locationQuery maxResults
               = Inr (map mapPlace (take maxResults places))"
proof -
  have key: "truthyString API_KEY" using assms [rule_format, of MissingApiKey] by simp
  obtain response where r: "fetch (''restaurants in '' @ locationQuery) (the API_KEY) = Inr response"
    using assms [rule_format, of FetchThrows] key
    by (cases "fetch (''restaurants in '' @ locationQuery) (the API_KEY)") auto
  then have fr: "fetchedResponse API_KEY fetch locationQuery = Some response"
    using key by (simp add: fetchedResponse_def)
  have ok: "resp_ok response" using assms [rule_format, of HttpNotOk] fr by simp
  obtain data where d: "json_body response = Inr data"
    using assms [rule_format, of ParseThrows] fr ok by (cases "json_body response") auto
  then have pd: "parsedData API_KEY fetch locationQuery = Some data"
    using fr ok by (simp add: parsedData_def)
  have st: "data_status data = ''OK''" "nonEmptyList (data_results data)"
    using assms [rule_format, of ApiStatusError] assms [rule_format, of ZeroResults] pd by auto
  then obtain places where p: "data_results data = Some places"
    by (cases "data_results data") (auto simp: nonEmptyList_def)
  have "fetchRestaurantsFromGooglePlaces API_KEY fetch locationQuery maxResults
               = Inr (map mapPlace (take maxResults places))"
    using key r ok d st p by (simp add: fetchRestaurantsFromGooglePlaces_def fetchBody_def)
  then show ?thesis using pd p by blast
qed

text \<open>
  C9. Whatever the key, the behaviour of \<open>fetch\<close>, the location and the limit are,
  \<^verbatim>\<open>fetchRestaurantsFromGooglePlaces\<close> returns a list and raises nothing; in each
  failure mode the list is empty; and when no failure mode occurs it is the mapped
  prefix of the provider's results, so the empty answer is not all it can give.
\<close>

theorem C9_fetch_failures_give_empty_list:
  "(\<exists>rs. fetchRestaurantsFromGooglePlaces API_KEY fetch locationQuery maxResults = Inr rs)
   \<and> (occurs mode API_KEY fetch locationQuery \<longrightarrow>
        fetchRestaurantsFromGooglePlaces API_KEY fetch locationQuery maxResults = Inr [])
   \<and> ((\<forall>m. \<not> occurs m API_KEY fetch locationQuery) \<longrightarrow>
        (\<exists>data places. parsedData API_KEY fetch locationQuery = Some data
           \<and> data_results data = Some places
           \<and> fetchRestaurantsFromGooglePlaces API_KEY fetch locationQuery maxResults
               = Inr (map mapPlace (take maxResults places))))"
  using fetch_never_throws fetch_failure_empty fetch_success by blast

theorem C9_fetch_failures_give_empty_list_witness:
  "occurs MissingApiKey None failing_fetch ''London''
   \<and> fetchRestaurantsFromGooglePlaces None failing_fetch ''London'' 20 = Inr []
   \<and> occurs FetchThrows (Some ''key'') failing_fetch ''London''
   \<and> fetchRestaurantsFromGooglePlaces (Some ''key'') failing_fetch ''London'' 20 = Inr []
   \<and> occurs ApiStatusError (Some ''key'') denied_fetch ''London''
   \<and> fetchRestaurantsFromGooglePlaces (Some ''key'') denied_fetch ''London'' 20 = Inr []"
proof -
  have a: "occurs MissingApiKey None failing_fetch ''London''"
    by (simp add: truthyString_def)
  have b: "occurs FetchThrows (Some ''key'') failing_fetch ''London''"
    by (simp add: truthyString_def failing_fetch_def)
  have c: "occurs ApiStatusError (Some ''key'') denied_fetch ''London''"
    by (simp add: parsedData_def fetchedResponse_def truthyString_def denied_fetch_def)
  have "fetchRestaurantsFromGooglePlaces None failing_fetch ''London'' 20 = Inr []"
    using C9_fetch_failures_give_empty_list [of None failing_fetch "''London''" 20 MissingApiKey] a
    by blast
  moreover have "fetchRestaurantsFromGooglePlaces (Some ''key'') failing_fetch ''London'' 20 = Inr []"
    using C9_fetch_failures_give_empty_list [of "Some ''key''" failing_fetch "''London''" 20 FetchThrows] b
    by blast
  moreover have "fetchRestaurantsFromGooglePlaces (Some ''key'') denied_fetch ''London'' 20 = Inr []"
    using C9_fetch_failures_give_empty_list [of "Some ''key''" denied_fetch "''London''" 20 ApiStatusError] c
    by blast
  ultimately show ?thesis using a b c by blast
qed

section \<open>Proofs: a successful fetch\<close>

text \<open>A successful fetch, limited to one result, as a check of the model.\<close>

lemma fetch_sample_success:
  "fetchRestaurantsFromGooglePlaces (Some ''key'') ok_fetch ''London'' 1 =
     Inr [\<lparr>googlePlaceId = ''g-1'', r_name = ''Luigi Pasta House'', address = ''1 Main St'',
           cuisines = [''Italian'', ''Vegetarian''], dietaryOptions = [''vegetarian''],
           rating = 4.4\<rparr>]"
  by code_simp

section \<open>Proofs: sample runs of the recommenders\<close>

text \<open>A run of the TV recommender on the sample provider, as a check of the model:
  show 2 is excluded, shows 1 and 3 are returned, and without preferences each scores
  2 + 5 + 7/2.\<close>

lemma tv_sample_run:
  "map tmdb_id (recommendations
     (getTvShowRecommendationsForUser sample_service sample_tv_user no_tv_prefs {2} 2 empty_db))
   = [1, 3]"
  by code_simp

text \<open>With the preferred genre Comedy no sample show passes the scorer, and the fallback
  phase returns the same two popular shows.\<close>

lemma tv_sample_run_genre:
  "map tmdb_id (recommendations
     (getTvShowRecommendationsForUser sample_service sample_tv_user comedy_prefs {2} 5 empty_db))
   = [1, 3]"
  by code_simp

lemma tv_sample_score:
  "scoreTvShow no_tv_prefs (insertRow [] (sample_tmdb_show 1) 1) = 10.5"
  by code_simp

lemma restaurant_sample_run:
  "map r_name (getRecommendations open_user six_restaurants {3} (\<lambda>i. 0))
   = [''F'', ''B'', ''A'', ''D'', ''E'']"
  by code_simp

end
